theory Spec2Isabelle
  imports Complex_Main "HOL-Library.AList" "HOL-Library.Product_Lexorder"
begin

section \<open>Time\<close>

text \<open>
  An instant is a number of microseconds since the epoch, in UTC. A Python \<open>datetime\<close> is
  its naive fields (year to microsecond, read as microseconds since the epoch without any
  offset) together with the offset of its \<open>tzinfo\<close>, in microseconds; \<open>tzoff = None\<close> is a
  naive datetime (no \<open>tzinfo\<close>, or one whose \<open>utcoffset\<close> is \<open>None\<close>).
  Floating point columns are modelled as real numbers.
\<close>

type_synonym instant = int

record datetime =
  wall :: int
  tzoff :: "int option"

definition timedelta_minutes :: "int \<Rightarrow> int" where
  "timedelta_minutes n = n * 60000000"

definition timedelta_hours :: "int \<Rightarrow> int" where
  "timedelta_hours n = n * 3600000000"

definition dt_minute :: "datetime \<Rightarrow> int" where
  "dt_minute d = (wall d div 60000000) mod 60"

definition dt_second :: "datetime \<Rightarrow> int" where
  "dt_second d = (wall d div 1000000) mod 60"

definition dt_microsecond :: "datetime \<Rightarrow> int" where
  "dt_microsecond d = wall d mod 1000000"

text \<open>\<open>d.replace(minute=0)\<close>: only the minute field changes; second, microsecond and
  \<open>tzinfo\<close> stay.\<close>

definition replace_minute0 :: "datetime \<Rightarrow> datetime" where
  "replace_minute0 d = d\<lparr>wall := wall d - dt_minute d * 60000000\<rparr>"

text \<open>\<open>d + timedelta\<close>: arithmetic on the fields, the \<open>tzinfo\<close> stays.\<close>

definition dt_plus :: "datetime \<Rightarrow> int \<Rightarrow> datetime" where
  "dt_plus d delta = d\<lparr>wall := wall d + delta\<rparr>"

definition utc_datetime :: "instant \<Rightarrow> datetime" where
  "utc_datetime t = \<lparr>wall = t, tzoff = Some 0\<rparr>"

text \<open>
  \<open>homeassistant.util.dt.as_utc\<close> is not under \<open>src/\<close>. It returns the same instant with
  the UTC \<open>tzinfo\<close>; a naive datetime is first read in the configured default time zone,
  whose offset at a local time is the parameter \<open>tz\<close>.
\<close>

definition as_utc :: "(int \<Rightarrow> int) \<Rightarrow> datetime \<Rightarrow> datetime" where
  "as_utc tz d =
     (case tzoff d of
        None \<Rightarrow> \<lparr>wall = wall d - tz (wall d), tzoff = Some 0\<rparr>
      | Some off \<Rightarrow> \<lparr>wall = wall d - off, tzoff = Some 0\<rparr>)"

text \<open>
  The instant a datetime stands for when it is bound into a query or stored in a column:
  the tables hold UTC, and a naive datetime is taken as UTC there.
\<close>

definition db_instant :: "datetime \<Rightarrow> instant" where
  "db_instant d = (case tzoff d of None \<Rightarrow> wall d | Some off \<Rightarrow> wall d - off)"

text \<open>
  A datetime handed to a query as the caller gave it, with no \<open>as_utc\<close> before: the default
  backend (SQLite) renders the parameter from its fields, year to microsecond, and does not
  apply the offset of an aware datetime. The column it is compared with holds UTC fields.
\<close>

definition bound_parameter :: "datetime \<Rightarrow> instant" where
  "bound_parameter d = wall d"

text \<open>\<open>models.process_timestamp\<close> (not under \<open>src/\<close>): a column value read back as a UTC
  datetime, \<open>None\<close> staying \<open>None\<close>.\<close>

definition process_timestamp :: "instant option \<Rightarrow> datetime option" where
  "process_timestamp ts = map_option utc_datetime ts"

section \<open>Units\<close>

text \<open>The unit constants of \<open>homeassistant.const\<close>, as UTF-8 bytes.\<close>

definition PRESSURE_PA :: string where
  "PRESSURE_PA = ''Pa''"

definition TEMP_CELSIUS :: string where
  "TEMP_CELSIUS = [CHR 0xC2, CHR 0xB0, CHR ''C'']"

definition VOLUME_CUBIC_METERS :: string where
  "VOLUME_CUBIC_METERS = [CHR ''m'', CHR 0xC2, CHR 0xB3]"

definition VOLUME_CUBIC_FEET :: string where
  "VOLUME_CUBIC_FEET = [CHR ''f'', CHR ''t'', CHR 0xC2, CHR 0xB3]"

record UnitSystem =
  pressure_unit :: string
  temperature_unit :: string
  is_metric :: bool

text \<open>
  The converters of \<open>homeassistant.util.pressure\<close>, \<open>temperature\<close> and \<open>volume\<close> are not
  under \<open>src/\<close>; they are parameters: \<open>convert value from_unit to_unit\<close>.
\<close>

record converters =
  pressure_convert :: "real \<Rightarrow> string \<Rightarrow> string \<Rightarrow> real"
  temperature_convert :: "real \<Rightarrow> string \<Rightarrow> string \<Rightarrow> real"
  volume_convert :: "real \<Rightarrow> string \<Rightarrow> string \<Rightarrow> real"

definition configured_unit :: "string option \<Rightarrow> UnitSystem \<Rightarrow> string option" where
  "configured_unit unit units =
     (if unit = Some PRESSURE_PA then Some (pressure_unit units)
      else if unit = Some TEMP_CELSIUS then Some (temperature_unit units)
      else if unit = Some VOLUME_CUBIC_METERS then
        (if is_metric units then Some VOLUME_CUBIC_METERS else Some VOLUME_CUBIC_FEET)
      else unit)"

definition STATISTIC_UNIT_TO_DISPLAY_UNIT_CONVERSIONS ::
  "converters \<Rightarrow> (string \<times> (real option \<Rightarrow> UnitSystem \<Rightarrow> real option)) list" where
  "STATISTIC_UNIT_TO_DISPLAY_UNIT_CONVERSIONS cv =
     [(PRESSURE_PA, \<lambda>x units.
         (case x of None \<Rightarrow> None
          | Some v \<Rightarrow> Some (pressure_convert cv v PRESSURE_PA (pressure_unit units)))),
      (TEMP_CELSIUS, \<lambda>x units.
         (case x of None \<Rightarrow> None
          | Some v \<Rightarrow> Some (temperature_convert cv v TEMP_CELSIUS (temperature_unit units)))),
      (VOLUME_CUBIC_METERS, \<lambda>x units.
         (case x of None \<Rightarrow> None
          | Some v \<Rightarrow> Some (volume_convert cv v VOLUME_CUBIC_METERS
                (the (configured_unit (Some VOLUME_CUBIC_METERS) units)))))]"

definition DISPLAY_UNIT_TO_STATISTIC_UNIT_CONVERSIONS ::
  "converters \<Rightarrow> (string \<times> (real \<Rightarrow> UnitSystem \<Rightarrow> real)) list" where
  "DISPLAY_UNIT_TO_STATISTIC_UNIT_CONVERSIONS cv =
     [(VOLUME_CUBIC_FEET, \<lambda>x units.
         volume_convert cv x (the (configured_unit (Some VOLUME_CUBIC_METERS) units))
           VOLUME_CUBIC_METERS)]"

text \<open>\<open>table.get(key, default)\<close> on a table keyed by strings; the key may be \<open>None\<close>.\<close>

definition dict_get :: "(string \<times> 'a) list \<Rightarrow> string option \<Rightarrow> 'a \<Rightarrow> 'a" where
  "dict_get tbl k dflt =
     (case k of None \<Rightarrow> dflt
      | Some u \<Rightarrow> (case map_of tbl u of None \<Rightarrow> dflt | Some f \<Rightarrow> f))"

text \<open>The conversion a query applies to a value of a series with unit \<open>unit\<close>
  (\<open>_sorted_statistics_to_dict\<close>, with \<open>convert_units\<close> set).\<close>

definition to_display :: "converters \<Rightarrow> UnitSystem \<Rightarrow> string option \<Rightarrow> real option \<Rightarrow> real option" where
  "to_display cv units unit x =
     (dict_get (STATISTIC_UNIT_TO_DISPLAY_UNIT_CONVERSIONS cv) unit (\<lambda>x units. x)) x units"

text \<open>The conversion \<open>adjust_statistics\<close> applies to a value given in the display unit of a
  series with unit \<open>unit\<close>.\<close>

definition to_normalized :: "converters \<Rightarrow> UnitSystem \<Rightarrow> string option \<Rightarrow> real \<Rightarrow> real" where
  "to_normalized cv units unit x =
     (let display_unit = configured_unit unit units;
          convert = dict_get (DISPLAY_UNIT_TO_STATISTIC_UNIT_CONVERSIONS cv) display_unit
                      (\<lambda>x units. x)
      in convert x units)"

section \<open>Tables\<close>

record StatisticMetaData =
  has_mean :: bool
  has_sum :: bool
  name :: "string option"
  source :: string
  statistic_id :: string
  unit_of_measurement :: "string option"

record StatisticsMeta =
  meta_id :: int
  meta_data :: StatisticMetaData

text \<open>A sample as a producer or an importer hands it over (\<open>StatisticData\<close>); a key that
  is absent is \<open>None\<close>.\<close>

record StatisticData =
  start :: datetime
  mean :: "real option"
  min_v :: "real option"
  max_v :: "real option"
  last_reset :: "datetime option"
  state :: "real option"
  sum_v :: "real option"

text \<open>The columns both bucket tables share (\<open>StatisticsBase\<close>).\<close>

record row =
  col_id :: int
  col_created :: instant
  col_metadata_id :: int
  col_start :: instant
  col_mean :: "real option"
  col_min :: "real option"
  col_max :: "real option"
  col_last_reset :: "instant option"
  col_state :: "real option"
  col_sum :: "real option"

datatype table = Statistics | StatisticsShortTerm

record db =
  statistics_meta :: "StatisticsMeta list"
  statistics :: "row list"
  statistics_short_term :: "row list"
  statistics_runs :: "instant list"

definition table_rows :: "table \<Rightarrow> db \<Rightarrow> row list" where
  "table_rows t d = (case t of Statistics \<Rightarrow> statistics d | StatisticsShortTerm \<Rightarrow> statistics_short_term d)"

definition set_table_rows :: "table \<Rightarrow> row list \<Rightarrow> db \<Rightarrow> db" where
  "set_table_rows t rs d =
     (case t of Statistics \<Rightarrow> d\<lparr>statistics := rs\<rparr>
      | StatisticsShortTerm \<Rightarrow> d\<lparr>statistics_short_term := rs\<rparr>)"

text \<open>
  The effects of a unit of work, in program order: what it wrote through its session and
  the backup files it wrote. A session is the tables as the transaction sees them and the
  effects so far; leaving the session scope commits the tables. Failures of the storage
  engine are outside the model.
\<close>

datatype effect =
    Add_meta StatisticsMeta
  | Update_meta string
  | Add_row table row
  | Update_row table int
  | Update_sum table int instant real
  | Delete_rows table "int list"
  | Add_run instant
  | Write_backup "(row \<times> row) list"

record session =
  sdb :: db
  trace :: "effect list"

definition new_session :: "db \<Rightarrow> session" where
  "new_session d = \<lparr>sdb = d, trace = []\<rparr>"

text \<open>The key an autoincrement column gives the next row.\<close>

definition next_id :: "int list \<Rightarrow> int" where
  "next_id ids = fold max ids 0 + 1"

text \<open>\<open>table.from_stats(metadata_id, stats)\<close>; the key and \<open>created\<close> are filled in when
  the row is inserted.\<close>

definition from_stats :: "int \<Rightarrow> StatisticData \<Rightarrow> int \<Rightarrow> instant \<Rightarrow> row" where
  "from_stats mid stats i now =
     \<lparr>col_id = i, col_created = now, col_metadata_id = mid,
      col_start = db_instant (start stats), col_mean = mean stats, col_min = min_v stats,
      col_max = max_v stats, col_last_reset = map_option db_instant (last_reset stats),
      col_state = state stats, col_sum = sum_v stats\<rparr>"

definition session_add_row :: "instant \<Rightarrow> table \<Rightarrow> (int \<Rightarrow> instant \<Rightarrow> row) \<Rightarrow> session \<Rightarrow> session" where
  "session_add_row now t mk s =
     (let rs = table_rows t (sdb s);
          r = mk (next_id (map col_id rs)) now
      in \<lparr>sdb = set_table_rows t (rs @ [r]) (sdb s), trace = trace s @ [Add_row t r]\<rparr>)"

definition insert_statistics :: "instant \<Rightarrow> session \<Rightarrow> table \<Rightarrow> int \<Rightarrow> StatisticData \<Rightarrow> session" where
  "insert_statistics now s t mid statistic = session_add_row now t (from_stats mid statistic) s"

section \<open>Metadata\<close>

datatype statistic_type = Type_mean | Type_sum

definition generate_get_metadata_stmt ::
  "string list option \<Rightarrow> statistic_type option \<Rightarrow> string option \<Rightarrow> StatisticsMeta \<Rightarrow> bool" where
  "generate_get_metadata_stmt statistic_ids stype statistic_source m \<longleftrightarrow>
     (case statistic_ids of None \<Rightarrow> True | Some ids \<Rightarrow> statistic_id (meta_data m) \<in> set ids) \<and>
     (case statistic_source of None \<Rightarrow> True | Some src \<Rightarrow> source (meta_data m) = src) \<and>
     (case stype of None \<Rightarrow> True
      | Some Type_mean \<Rightarrow> has_mean (meta_data m)
      | Some Type_sum \<Rightarrow> has_sum (meta_data m))"

type_synonym metadata_dict = "(string \<times> (int \<times> StatisticMetaData)) list"

definition get_metadata_with_session ::
  "session \<Rightarrow> string list option \<Rightarrow> statistic_type option \<Rightarrow> string option \<Rightarrow> metadata_dict" where
  "get_metadata_with_session s statistic_ids stype statistic_source =
     (let result = filter (generate_get_metadata_stmt statistic_ids stype statistic_source)
                     (statistics_meta (sdb s))
      in fold (\<lambda>m d. AList.update (statistic_id (meta_data m)) (meta_id m, meta_data m) d)
           result [])"

section \<open>Sum Adjuster\<close>

definition adjust_sum_statistics :: "session \<Rightarrow> table \<Rightarrow> int \<Rightarrow> datetime \<Rightarrow> real \<Rightarrow> session" where
  "adjust_sum_statistics s t mid start_time adj =
     \<lparr>sdb = set_table_rows t
        (map (\<lambda>r. if col_metadata_id r = mid \<and> bound_parameter start_time \<le> col_start r
                  then r\<lparr>col_sum := map_option (\<lambda>v. v + adj) (col_sum r)\<rparr> else r)
           (table_rows t (sdb s)))
        (sdb s),
      trace = trace s @ [Update_sum t mid (bound_parameter start_time) adj]\<rparr>"

text \<open>\<open>adjust_statistics\<close> returns \<open>True\<close> on both paths: inside the session for an unknown
  series, and after the session for an adjusted one. \<open>start_time\<close> reaches both queries as
  the caller gave it.\<close>

definition adjust_statistics ::
  "converters \<Rightarrow> UnitSystem \<Rightarrow> db \<Rightarrow> string \<Rightarrow> datetime \<Rightarrow> real \<Rightarrow> db \<times> bool" where
  "adjust_statistics cv units d sid start_time sum_adjustment =
     (let s = new_session d;
          metadata = get_metadata_with_session s (Some [sid]) None None
      in case map_of metadata sid of
           None \<Rightarrow> (sdb s, True)
         | Some (mid, md) \<Rightarrow>
             (let statistic_unit = unit_of_measurement md;
                  adj = to_normalized cv units statistic_unit sum_adjustment;
                  s1 = adjust_sum_statistics s StatisticsShortTerm mid start_time adj;
                  s2 = adjust_sum_statistics s1 Statistics mid (replace_minute0 start_time) adj
              in (sdb s2, True)))"

section \<open>Metadata Registry\<close>

definition update_or_add_metadata ::
  "session \<Rightarrow> StatisticMetaData \<Rightarrow> metadata_dict \<Rightarrow> session \<times> int" where
  "update_or_add_metadata s new_metadata old_metadata_dict =
     (let sid = statistic_id new_metadata
      in case map_of old_metadata_dict sid of
           None \<Rightarrow>
             (let m = \<lparr>meta_id = next_id (map meta_id (statistics_meta (sdb s))),
                       meta_data = new_metadata\<rparr>
              in (\<lparr>sdb = (sdb s)\<lparr>statistics_meta := statistics_meta (sdb s) @ [m]\<rparr>,
                   trace = trace s @ [Add_meta m]\<rparr>, meta_id m))
         | Some (metadata_id, old_metadata) \<Rightarrow>
             (if has_mean old_metadata \<noteq> has_mean new_metadata
                 \<or> has_sum old_metadata \<noteq> has_sum new_metadata
                 \<or> unit_of_measurement old_metadata \<noteq> unit_of_measurement new_metadata
              then (\<lparr>sdb = (sdb s)\<lparr>statistics_meta :=
                           map (\<lambda>m. if statistic_id (meta_data m) = sid
                                     then m\<lparr>meta_data := (meta_data m)
                                            \<lparr>has_mean := has_mean new_metadata,
                                             has_sum := has_sum new_metadata,
                                             unit_of_measurement := unit_of_measurement new_metadata\<rparr>\<rparr>
                                     else m)
                             (statistics_meta (sdb s))\<rparr>,
                     trace = trace s @ [Update_meta sid]\<rparr>, metadata_id)
              else (s, metadata_id)))"

section \<open>Hourly Rollup\<close>

text \<open>The aggregates of the storage engine skip \<open>NULL\<close> and give \<open>NULL\<close> on no value.\<close>

fun non_null :: "'a option list \<Rightarrow> 'a list" where
  "non_null [] = []"
| "non_null (None # vs) = non_null vs"
| "non_null (Some v # vs) = v # non_null vs"

definition sql_avg :: "real option list \<Rightarrow> real option" where
  "sql_avg vs =
     (case non_null vs of [] \<Rightarrow> None
      | x # xs \<Rightarrow> Some (sum_list (x # xs) / real (length (x # xs))))"

definition sql_min :: "real option list \<Rightarrow> real option" where
  "sql_min vs = (case non_null vs of [] \<Rightarrow> None | x # xs \<Rightarrow> Some (fold min xs x))"

definition sql_max :: "real option list \<Rightarrow> real option" where
  "sql_max vs = (case non_null vs of [] \<Rightarrow> None | x # xs \<Rightarrow> Some (fold max xs x))"

definition in_period :: "instant \<Rightarrow> instant \<Rightarrow> row \<Rightarrow> bool" where
  "in_period a b r \<longleftrightarrow> a \<le> col_start r \<and> col_start r < b"

text \<open>\<open>QUERY_STATISTICS_SUMMARY_MEAN\<close> filtered to the period, grouped and ordered by
  \<open>metadata_id\<close>, as executed on the short-term table.\<close>

definition compile_hourly_statistics_summary_mean_stmt ::
  "row list \<Rightarrow> instant \<Rightarrow> instant \<Rightarrow> (int \<times> real option \<times> real option \<times> real option) list" where
  "compile_hourly_statistics_summary_mean_stmt tbl start_time end_time =
     (let sel = filter (in_period start_time end_time) tbl
      in map (\<lambda>m. let g = filter (\<lambda>r. col_metadata_id r = m) sel
                   in (m, sql_avg (map col_mean g), sql_min (map col_min g),
                       sql_max (map col_max g)))
           (sort (remdups (map col_metadata_id sel))))"

text \<open>\<open>QUERY_STATISTICS_SUMMARY_SUM\<close>: every row of the period with its \<open>rownum\<close>, the
  position in its series by descending \<open>start\<close>; then the rows with \<open>rownum = 1\<close>, ordered
  by \<open>metadata_id\<close>. Rows of one series with the same \<open>start\<close> keep the table's order.\<close>

definition summary_sum_subquery ::
  "row list \<Rightarrow> instant \<Rightarrow> instant \<Rightarrow>
   (int \<times> instant \<times> instant option \<times> real option \<times> real option \<times> nat) list" where
  "summary_sum_subquery tbl start_time end_time =
     (let sel = filter (in_period start_time end_time) tbl
      in concat (map (\<lambda>m.
           let part = sort_key (\<lambda>r. - col_start r) (filter (\<lambda>r. col_metadata_id r = m) sel)
           in map (\<lambda>(r, n). (col_metadata_id r, col_start r, col_last_reset r, col_state r,
                              col_sum r, n))
                (zip part [1..<Suc (length part)]))
         (sort (remdups (map col_metadata_id sel)))))"

definition summary_sum_query ::
  "row list \<Rightarrow> instant \<Rightarrow> instant \<Rightarrow>
   (int \<times> instant \<times> instant option \<times> real option \<times> real option \<times> nat) list" where
  "summary_sum_query tbl start_time end_time =
     filter (\<lambda>(metadata_id, st, lr, sta, sm, rownum). rownum = 1)
       (summary_sum_subquery tbl start_time end_time)"

text \<open>The dictionary \<open>summary\<close> of \<open>compile_hourly_statistics\<close> after its two loops, in
  insertion order.\<close>

definition hourly_summary :: "row list \<Rightarrow> datetime \<Rightarrow> datetime \<Rightarrow> (int \<times> StatisticData) list" where
  "hourly_summary tbl start_time end_time =
     (let stats = compile_hourly_statistics_summary_mean_stmt tbl
                    (db_instant start_time) (db_instant end_time);
          summary = fold (\<lambda>(metadata_id, m, mn, mx) sm.
                       AList.update metadata_id
                         \<lparr>start = start_time, mean = m, min_v = mn, max_v = mx,
                          last_reset = None, state = None, sum_v = None\<rparr> sm) stats [];
          stats2 = summary_sum_query tbl (db_instant start_time) (db_instant end_time)
      in fold (\<lambda>(metadata_id, st, lr, sta, sm, rownum) smry.
                 (case map_of smry metadata_id of
                    Some e \<Rightarrow> AList.update metadata_id
                               (e\<lparr>last_reset := process_timestamp lr, state := sta,
                                  sum_v := sm\<rparr>) smry
                  | None \<Rightarrow> AList.update metadata_id
                              \<lparr>start = start_time, mean = None, min_v = None,
                               max_v = None, last_reset = process_timestamp lr,
                               state = sta, sum_v = sm\<rparr> smry)) stats2 summary)"

definition compile_hourly_statistics :: "instant \<Rightarrow> session \<Rightarrow> datetime \<Rightarrow> session" where
  "compile_hourly_statistics now s strt =
     (let start_time = replace_minute0 strt;
          end_time = dt_plus start_time (timedelta_hours 1);
          summary = hourly_summary (statistics_short_term (sdb s)) start_time end_time
      in fold (\<lambda>(metadata_id, stt) s'.
                 session_add_row now Statistics (from_stats metadata_id stt) s')
           summary s)"

section \<open>Short-Term Compiler\<close>

record StatisticResult =
  meta :: StatisticMetaData
  stat :: StatisticData

record PlatformCompiledStatistics =
  platform_stats :: "StatisticResult list"
  current_metadata :: metadata_dict

text \<open>A registered platform; \<open>None\<close> is one without a \<open>compile_statistics\<close> attribute.\<close>

type_synonym platform = "(datetime \<Rightarrow> datetime \<Rightarrow> PlatformCompiledStatistics) option"

definition collect_platform_stats ::
  "platform list \<Rightarrow> datetime \<Rightarrow> datetime \<Rightarrow> StatisticResult list \<times> metadata_dict" where
  "collect_platform_stats platforms strt end_time =
     fold (\<lambda>p (ps, cm).
             (case p of None \<Rightarrow> (ps, cm)
              | Some f \<Rightarrow>
                  (let compiled = f strt end_time
                   in (ps @ platform_stats compiled,
                       fold (\<lambda>(k, v) d. AList.update k v d) (current_metadata compiled) cm))))
       platforms ([], [])"

definition insert_platform_stats ::
  "instant \<Rightarrow> metadata_dict \<Rightarrow> StatisticResult list \<Rightarrow> session \<Rightarrow> session" where
  "insert_platform_stats now cur_meta pstats s0 =
     fold (\<lambda>stats s.
             (let (s', metadata_id) = update_or_add_metadata s (meta stats) cur_meta
              in insert_statistics now s' StatisticsShortTerm metadata_id (stat stats)))
       pstats s0"

definition add_run :: "instant \<Rightarrow> session \<Rightarrow> session" where
  "add_run t s = \<lparr>sdb = (sdb s)\<lparr>statistics_runs := statistics_runs (sdb s) @ [t]\<rparr>,
                   trace = trace s @ [Add_run t]\<rparr>"

definition compile_statistics ::
  "(int \<Rightarrow> int) \<Rightarrow> instant \<Rightarrow> platform list \<Rightarrow> db \<Rightarrow> datetime \<Rightarrow> session \<times> bool" where
  "compile_statistics tz now platforms d start0 =
     (let strt = as_utc tz start0;
          end_time = dt_plus strt (timedelta_minutes 5)
      in if db_instant strt \<in> set (statistics_runs d) then (new_session d, True)
         else
           (let (pstats, cur_meta) = collect_platform_stats platforms strt end_time;
                s1 = insert_platform_stats now cur_meta pstats (new_session d);
                s2 = (if dt_minute strt = 55 then compile_hourly_statistics now s1 strt else s1)
            in (add_run (db_instant strt) s2, True)))"

section \<open>Range Query Assembler\<close>

datatype error = KeyError | ValueError | HomeAssistantError string

text \<open>One entry of a response. The rendering of \<open>start\<close> and \<open>end\<close> as ISO strings is
  left out: the entry holds the datetimes.\<close>

record entry =
  e_statistic_id :: string
  e_start :: datetime
  e_end :: datetime
  e_mean :: "real option"
  e_min :: "real option"
  e_max :: "real option"
  e_last_reset :: "datetime option"
  e_state :: "real option"
  e_sum :: "real option"

definition duration :: "table \<Rightarrow> int" where
  "duration t = (case t of Statistics \<Rightarrow> timedelta_hours 1
                 | StatisticsShortTerm \<Rightarrow> timedelta_minutes 5)"

text \<open>\<open>itertools.groupby\<close>: runs of neighbours with the same key.\<close>

function groupby :: "('a \<Rightarrow> 'k) \<Rightarrow> 'a list \<Rightarrow> ('k \<times> 'a list) list" where
  "groupby f [] = []"
| "groupby f (x # xs) =
     (f x, x # takeWhile (\<lambda>y. f y = f x) xs) # groupby f (dropWhile (\<lambda>y. f y = f x) xs)"
  by pat_completeness auto
termination
  by (relation "measure (\<lambda>(f, xs). length xs)") (auto simp: length_dropWhile_le less_Suc_eq_le)

definition statistics_during_period_stmt ::
  "instant \<Rightarrow> instant option \<Rightarrow> string list option \<Rightarrow> int list option \<Rightarrow> row list \<Rightarrow> row list" where
  "statistics_during_period_stmt start_time end_time statistic_ids metadata_ids tbl =
     sort_key (\<lambda>r. (col_metadata_id r, col_start r))
       (filter (\<lambda>r. start_time \<le> col_start r
                   \<and> (case end_time of None \<Rightarrow> True | Some e \<Rightarrow> col_start r < e)
                   \<and> (case statistic_ids of None \<Rightarrow> True
                      | Some _ \<Rightarrow> (case metadata_ids of None \<Rightarrow> False
                                   | Some ms \<Rightarrow> col_metadata_id r \<in> set ms)))
          tbl)"

text \<open>The rows with the largest key of their series among the rows before \<open>start_time\<close>,
  for the series of \<open>metadata_ids\<close>.\<close>

definition statistics_at_time :: "row list \<Rightarrow> int list \<Rightarrow> instant \<Rightarrow> row list" where
  "statistics_at_time tbl metadata_ids start_time =
     (let before = filter (\<lambda>r. col_start r < start_time \<and> col_metadata_id r \<in> set metadata_ids) tbl;
          most_recent_statistic_ids =
            map (\<lambda>m. case map col_id (filter (\<lambda>r. col_metadata_id r = m) before) of
                        [] \<Rightarrow> 0 | i # is \<Rightarrow> fold max is i)
              (remdups (map col_metadata_id before))
      in filter (\<lambda>r. col_id r \<in> set most_recent_statistic_ids) tbl)"

definition to_entry ::
  "table \<Rightarrow> string \<Rightarrow> (real option \<Rightarrow> UnitSystem \<Rightarrow> real option) \<Rightarrow> UnitSystem \<Rightarrow> row \<Rightarrow> entry" where
  "to_entry tbl sid convert units db_state =
     (let strt = utc_datetime (col_start db_state);
          end_time = dt_plus strt (duration tbl)
      in \<lparr>e_statistic_id = sid, e_start = strt, e_end = end_time,
          e_mean = convert (col_mean db_state) units,
          e_min = convert (col_min db_state) units,
          e_max = convert (col_max db_state) units,
          e_last_reset = process_timestamp (col_last_reset db_state),
          e_state = convert (col_state db_state) units,
          e_sum = convert (col_sum db_state) units\<rparr>)"

text \<open>The loop that appends the entries of every group; \<open>result\<close> is keyed by the statistic
  ids set up front (\<open>Inl\<close>) and by the metadata ids of the groups (\<open>Inr\<close>).\<close>

fun append_groups ::
  "converters \<Rightarrow> UnitSystem \<Rightarrow> bool \<Rightarrow> table \<Rightarrow> (int \<times> StatisticMetaData) list \<Rightarrow>
   (int \<times> row) list \<Rightarrow> (int \<times> row list) list \<Rightarrow> ((string + int) \<times> entry list) list \<Rightarrow>
   error + ((string + int) \<times> entry list) list" where
  "append_groups cv units convert_units tbl metadata sas [] result = Inr result"
| "append_groups cv units convert_units tbl metadata sas ((mid, grp) # gs) result =
     (case map_of metadata mid of
        None \<Rightarrow> Inl KeyError
      | Some md \<Rightarrow>
          (let unit = unit_of_measurement md;
               sid = statistic_id md;
               convert = (if convert_units then (\<lambda>x u. to_display cv u unit x) else (\<lambda>val _. val));
               ent_results = (case map_of result (Inr mid) of None \<Rightarrow> [] | Some v \<Rightarrow> v);
               chain = (case map_of sas mid of None \<Rightarrow> [] | Some st \<Rightarrow> [st]) @ grp
           in append_groups cv units convert_units tbl metadata sas gs
                (AList.update (Inr mid)
                   (ent_results @ map (to_entry tbl sid convert units) chain) result)))"

text \<open>The final comprehension: the non-empty lists, keyed by statistic id.\<close>

fun non_empty_by_statistic_id ::
  "(int \<times> StatisticMetaData) list \<Rightarrow> ((string + int) \<times> entry list) list \<Rightarrow>
   (string \<times> entry list) list \<Rightarrow> error + (string \<times> entry list) list" where
  "non_empty_by_statistic_id metadata [] acc = Inr acc"
| "non_empty_by_statistic_id metadata ((key, val) # rest) acc =
     (if val = [] then non_empty_by_statistic_id metadata rest acc
      else (case key of
              Inl _ \<Rightarrow> Inl KeyError
            | Inr i \<Rightarrow>
                (case map_of metadata i of
                   None \<Rightarrow> Inl KeyError
                 | Some md \<Rightarrow>
                     non_empty_by_statistic_id metadata rest
                       (AList.update (statistic_id md) val acc))))"

definition sorted_statistics_to_dict ::
  "converters \<Rightarrow> UnitSystem \<Rightarrow> session \<Rightarrow> row list \<Rightarrow> string list option \<Rightarrow> metadata_dict \<Rightarrow>
   bool \<Rightarrow> table \<Rightarrow> instant option \<Rightarrow> error + (string \<times> entry list) list" where
  "sorted_statistics_to_dict cv units s stats statistic_ids metadata0 convert_units tbl start_time =
     (let metadata = fold (\<lambda>(sid, (i, md)) d. AList.update i md d) metadata0 [];
          result0 = (case statistic_ids of None \<Rightarrow> []
                     | Some ids \<Rightarrow> fold (\<lambda>stat_id res. AList.update (Inl stat_id) [] res) ids []);
          groups = groupby col_metadata_id stats;
          need_stat_at_start_time =
            (case start_time of None \<Rightarrow> []
             | Some t \<Rightarrow>
                 map fst (filter (\<lambda>(mid, grp).
                                    (case grp of [] \<Rightarrow> False | r # _ \<Rightarrow> t < col_start r))
                            groups));
          stats_at_start_time =
            (case start_time of None \<Rightarrow> []
             | Some t \<Rightarrow>
                 (if need_stat_at_start_time = [] then []
                  else fold (\<lambda>st d. AList.update (col_metadata_id st) st d)
                         (statistics_at_time (table_rows tbl (sdb s)) need_stat_at_start_time t)
                         []))
      in case append_groups cv units convert_units tbl metadata stats_at_start_time groups
                result0 of
           Inl e \<Rightarrow> Inl e
         | Inr result \<Rightarrow> non_empty_by_statistic_id metadata result [])"

text \<open>The periods served from the stored rows. The periods \<open>day\<close> and \<open>month\<close> hand the
  hourly response to the Period Reducer, which is not part of this development.\<close>

datatype period = Period_5minute | Period_hour

definition statistics_during_period ::
  "converters \<Rightarrow> UnitSystem \<Rightarrow> db \<Rightarrow> instant \<Rightarrow> instant option \<Rightarrow> string list option \<Rightarrow>
   period \<Rightarrow> error + (string \<times> entry list) list" where
  "statistics_during_period cv units d start_time end_time statistic_ids prd =
     (let s = new_session d;
          metadata = get_metadata_with_session s statistic_ids None None
      in if metadata = [] then Inr []
         else
           (let metadata_ids = (case statistic_ids of None \<Rightarrow> None
                                | Some _ \<Rightarrow> Some (map (\<lambda>(sid, (i, md)). i) metadata));
                tbl = (case prd of Period_5minute \<Rightarrow> StatisticsShortTerm
                       | Period_hour \<Rightarrow> Statistics);
                stats = statistics_during_period_stmt start_time end_time statistic_ids
                          metadata_ids (table_rows tbl (sdb s))
            in if stats = [] then Inr []
               else sorted_statistics_to_dict cv units s stats statistic_ids metadata True tbl
                      (Some start_time)))"

section \<open>External Statistics Importer\<close>

text \<open>
  \<open>VALID_STATISTIC_ID\<close>, the pattern
  \<^verbatim>\<open>^(?!.+__)(?!_)[\da-z_]+(?<!_):(?!_)[\da-z_]+(?<!_)$\<close>, matched from the start of the
  string. Identifiers are ASCII strings here, so \<^verbatim>\<open>\d\<close> is a digit \<open>0\<close> to \<open>9\<close>. The
  final \<^verbatim>\<open>$\<close> also matches before one trailing line feed.
\<close>

definition slug_char :: "char \<Rightarrow> bool" where
  "slug_char c \<longleftrightarrow> c \<in> set ''0123456789abcdefghijklmnopqrstuvwxyz_''"

definition is_slug :: "string \<Rightarrow> bool" where
  "is_slug w \<longleftrightarrow> w \<noteq> [] \<and> list_all slug_char w \<and> hd w \<noteq> CHR ''_'' \<and> last w \<noteq> CHR ''_''"

fun double_underscore :: "string \<Rightarrow> bool" where
  "double_underscore (a # b # cs) =
     (a \<noteq> CHR 0x0A \<and> ((a = CHR ''_'' \<and> b = CHR ''_'') \<or> double_underscore (b # cs)))"
| "double_underscore [a] = False"
| "double_underscore [] = False"

definition valid_statistic_id :: "string \<Rightarrow> bool" where
  "valid_statistic_id sid =
     (let line = (if sid \<noteq> [] \<and> last sid = CHR 0x0A then butlast sid else sid);
          domain = takeWhile (\<lambda>c. c \<noteq> CHR '':'') line;
          rest = dropWhile (\<lambda>c. c \<noteq> CHR '':'') line
      in \<not> (case sid of [] \<Rightarrow> False | c # cs \<Rightarrow> c \<noteq> CHR 0x0A \<and> double_underscore cs)
         \<and> is_slug domain
         \<and> (case rest of [] \<Rightarrow> False | colon # object_id \<Rightarrow> is_slug object_id))"

text \<open>\<open>entity_id.split(":", 1)\<close>\<close>

definition split_statistic_id :: "string \<Rightarrow> string list" where
  "split_statistic_id entity_id =
     (if CHR '':'' \<in> set entity_id
      then [takeWhile (\<lambda>c. c \<noteq> CHR '':'') entity_id,
            tl (dropWhile (\<lambda>c. c \<noteq> CHR '':'') entity_id)]
      else [entity_id])"

type_synonym external_job = "StatisticMetaData \<times> StatisticData list"

text \<open>The loop over the samples: the first sample that fails raises; every sample before
  it has its \<open>start\<close> replaced.\<close>

fun check_samples :: "(int \<Rightarrow> int) \<Rightarrow> StatisticData list \<Rightarrow> error + StatisticData list" where
  "check_samples tz [] = Inr []"
| "check_samples tz (statistic # rest) =
     (let strt = start statistic
      in if tzoff strt = None then Inl (HomeAssistantError ''Naive timestamp'')
         else if dt_minute strt \<noteq> 0 \<or> dt_second strt \<noteq> 0 \<or> dt_microsecond strt \<noteq> 0
         then Inl (HomeAssistantError ''Invalid timestamp'')
         else (case check_samples tz rest of
                 Inl e \<Rightarrow> Inl e
               | Inr rest' \<Rightarrow> Inr (statistic\<lparr>start := as_utc tz strt\<rparr> # rest')))"

text \<open>The result is the recorder's queue after the call and the exception raised, if any.\<close>

definition async_add_external_statistics ::
  "(int \<Rightarrow> int) \<Rightarrow> external_job list \<Rightarrow> StatisticMetaData \<Rightarrow> StatisticData list \<Rightarrow>
   external_job list \<times> error option" where
  "async_add_external_statistics tz queue metadata samples =
     (if \<not> valid_statistic_id (statistic_id metadata)
      then (queue, Some (HomeAssistantError ''Invalid statistic_id''))
      else (case split_statistic_id (statistic_id metadata) of
              [domain, object_id] \<Rightarrow>
                (if source metadata = [] \<or> source metadata \<noteq> domain
                 then (queue, Some (HomeAssistantError ''Invalid source''))
                 else (case check_samples tz samples of
                         Inl e \<Rightarrow> (queue, Some e)
                       | Inr samples' \<Rightarrow> (queue @ [(metadata, samples')], None)))
            | _ \<Rightarrow> (queue, Some ValueError)))"

definition statistics_exists :: "session \<Rightarrow> table \<Rightarrow> int \<Rightarrow> datetime \<Rightarrow> int option" where
  "statistics_exists s t mid strt =
     (case filter (\<lambda>r. col_metadata_id r = mid \<and> col_start r = db_instant strt)
             (table_rows t (sdb s)) of
        [] \<Rightarrow> None
      | r # _ \<Rightarrow> Some (col_id r))"

definition update_statistics :: "session \<Rightarrow> table \<Rightarrow> int \<Rightarrow> StatisticData \<Rightarrow> session" where
  "update_statistics s t stat_id statistic =
     \<lparr>sdb = set_table_rows t
        (map (\<lambda>r. if col_id r = stat_id
                  then r\<lparr>col_mean := mean statistic, col_min := min_v statistic,
                         col_max := max_v statistic,
                         col_last_reset := map_option db_instant (last_reset statistic),
                         col_state := state statistic, col_sum := sum_v statistic\<rparr>
                  else r)
           (table_rows t (sdb s)))
        (sdb s),
      trace = trace s @ [Update_row t stat_id]\<rparr>"

text \<open>The body of the loop of \<open>add_external_statistics\<close>: a row found for the bucket is
  updated, unless its key is 0, which the condition reads as no row; otherwise a row is
  inserted.\<close>

definition import_sample :: "instant \<Rightarrow> int \<Rightarrow> StatisticData \<Rightarrow> session \<Rightarrow> session" where
  "import_sample now mid st s =
     (case statistics_exists s Statistics mid (start st) of
        Some stat_id \<Rightarrow>
          (if stat_id \<noteq> 0 then update_statistics s Statistics stat_id st
           else insert_statistics now s Statistics mid st)
      | None \<Rightarrow> insert_statistics now s Statistics mid st)"

definition add_external_statistics ::
  "instant \<Rightarrow> db \<Rightarrow> StatisticMetaData \<Rightarrow> StatisticData list \<Rightarrow> session \<times> bool" where
  "add_external_statistics now d metadata samples =
     (let s0 = new_session d;
          old_metadata_dict = get_metadata_with_session s0 (Some [statistic_id metadata]) None None;
          (s1, metadata_id) = update_or_add_metadata s0 metadata old_metadata_dict
      in (fold (import_sample now metadata_id) samples s1, True))"

text \<open>A sample that passes the checks of \<open>async_add_external_statistics\<close>, and the bucket
  \<open>(metadata_id, start)\<close> being present in the long-term table.\<close>

definition sample_ok :: "StatisticData \<Rightarrow> bool" where
  "sample_ok st \<longleftrightarrow> tzoff (start st) \<noteq> None \<and> dt_minute (start st) = 0
                   \<and> dt_second (start st) = 0 \<and> dt_microsecond (start st) = 0"

definition has_row :: "int \<Rightarrow> instant \<Rightarrow> session \<Rightarrow> bool" where
  "has_row mid t s \<longleftrightarrow>
     list_ex (\<lambda>row. col_metadata_id row = mid \<and> col_start row = t) (statistics (sdb s))"

section \<open>Duplicate Resolver\<close>

definition compare_statistic_rows :: "row \<Rightarrow> row \<Rightarrow> bool" where
  "compare_statistic_rows row1 row2 \<longleftrightarrow>
     col_metadata_id row1 = col_metadata_id row2 \<and> col_start row1 = col_start row2
     \<and> col_mean row1 = col_mean row2 \<and> col_min row1 = col_min row2
     \<and> col_max row1 = col_max row2 \<and> col_last_reset row1 = col_last_reset row2
     \<and> col_state row1 = col_state row2 \<and> col_sum row1 = col_sum row2"

text \<open>The query of \<open>_find_duplicates\<close>: the rows that share \<open>(metadata_id, start)\<close> with
  another row, by \<open>metadata_id\<close>, \<open>start\<close> and descending key, cut at the limit.
  \<open>MAX_ROWS_TO_PURGE\<close> (of \<open>.const\<close>) is the parameter \<open>max_rows_to_purge\<close>.\<close>

definition duplicates_query :: "nat \<Rightarrow> row list \<Rightarrow> row list" where
  "duplicates_query max_rows_to_purge tbl =
     take (1000 * max_rows_to_purge)
       (sort_key (\<lambda>r. (col_metadata_id r, col_start r, - col_id r))
          (filter (\<lambda>r. 1 < length (filter (\<lambda>r'. col_metadata_id r' = col_metadata_id r
                                              \<and> col_start r' = col_start r) tbl))
             tbl))"

text \<open>The scan: \<open>orig\<close> is the row kept for the current \<open>(metadata_id, start)\<close>, \<open>None\<close>
  before the first row. A pair is \<open>(duplicate, original)\<close>.\<close>

fun scan_duplicates ::
  "row option \<Rightarrow> row list \<Rightarrow> int list \<Rightarrow> (row \<times> row) list \<Rightarrow> int list \<times> (row \<times> row) list" where
  "scan_duplicates orig [] duplicate_ids non_identical = (duplicate_ids, non_identical)"
| "scan_duplicates orig (duplicate # rest) duplicate_ids non_identical =
     (case orig of
        None \<Rightarrow> scan_duplicates (Some duplicate) rest duplicate_ids non_identical
      | Some original \<Rightarrow>
          (if col_start original \<noteq> col_start duplicate
              \<or> col_metadata_id original \<noteq> col_metadata_id duplicate
           then scan_duplicates (Some duplicate) rest duplicate_ids non_identical
           else scan_duplicates orig rest (duplicate_ids @ [col_id duplicate])
                  (if \<not> compare_statistic_rows original duplicate
                   then non_identical @ [(duplicate, original)] else non_identical)))"

definition find_duplicates :: "nat \<Rightarrow> session \<Rightarrow> table \<Rightarrow> int list \<times> (row \<times> row) list" where
  "find_duplicates max_rows_to_purge s t =
     scan_duplicates None (duplicates_query max_rows_to_purge (table_rows t (sdb s))) [] []"

text \<open>\<open>range(0, len(xs), n)\<close> and the slices \<open>xs[i : i + n]\<close>, for a positive \<open>n\<close>.\<close>

definition batches :: "nat \<Rightarrow> 'a list \<Rightarrow> 'a list list" where
  "batches n xs = map (\<lambda>i. take n (drop i xs)) (filter (\<lambda>i. i mod n = 0) [0..<length xs])"

definition delete_batch :: "table \<Rightarrow> int list \<Rightarrow> session \<times> nat \<Rightarrow> session \<times> nat" where
  "delete_batch t batch st =
     (let s = fst st;
          rs = table_rows t (sdb s);
          kept = filter (\<lambda>r. col_id r \<notin> set batch) rs
      in (\<lparr>sdb = set_table_rows t kept (sdb s), trace = trace s @ [Delete_rows t batch]\<rparr>,
          snd st + (length rs - length kept)))"

definition delete_batches :: "nat \<Rightarrow> table \<Rightarrow> int list \<Rightarrow> session \<times> nat \<Rightarrow> session \<times> nat" where
  "delete_batches n t ids st = fold (delete_batch t) (batches n ids) st"

text \<open>The loop of \<open>_delete_duplicates_from_table\<close> ends: every round that finds a duplicate
  deletes at least one row.\<close>

lemma scan_duplicates_ids:
  "set (fst (scan_duplicates orig xs ids nid)) \<subseteq> set ids \<union> col_id ` set xs"
  by (induction orig xs ids nid rule: scan_duplicates.induct)
     (auto split: option.splits if_splits)

lemma duplicates_query_subset: "set (duplicates_query n tbl) \<subseteq> set tbl"
  unfolding duplicates_query_def
  by (rule subset_trans[OF set_take_subset]) auto

lemma find_duplicates_ids:
  "set (fst (find_duplicates n s t)) \<subseteq> col_id ` set (table_rows t (sdb s))"
  unfolding find_duplicates_def
  using scan_duplicates_ids[of None "duplicates_query n (table_rows t (sdb s))" "[]" "[]"]
        duplicates_query_subset[of n "table_rows t (sdb s)"]
  by auto

lemma find_duplicates_limit0: "fst (find_duplicates 0 s t) = []"
  by (simp add: find_duplicates_def duplicates_query_def)

lemma table_rows_set_table_rows: "table_rows t (set_table_rows t rs d) = rs"
  by (cases t) (simp_all add: table_rows_def set_table_rows_def)

lemma delete_batch_rows:
  "table_rows t (sdb (fst (delete_batch t b st)))
   = filter (\<lambda>r. col_id r \<notin> set b) (table_rows t (sdb (fst st)))"
  by (simp add: delete_batch_def Let_def table_rows_set_table_rows)

lemma fold_delete_batch_rows:
  "table_rows t (sdb (fst (fold (delete_batch t) bs st)))
   = filter (\<lambda>r. col_id r \<notin> \<Union> (set (map set bs))) (table_rows t (sdb (fst st)))"
proof (induction bs arbitrary: st)
  case Nil
  then show ?case by simp
next
  case (Cons b bs)
  show ?case
    by (simp add: Cons.IH delete_batch_rows)
qed

lemma batches_first:
  assumes "0 < n" "xs \<noteq> []"
  shows "hd xs \<in> \<Union> (set (map set (batches n xs)))"
proof -
  from assms(2) have "[0..<length xs] = 0 # [Suc 0..<length xs]"
    by (simp add: upt_conv_Cons)
  then have "batches n xs = take n xs # map (\<lambda>i. take n (drop i xs))
                                          (filter (\<lambda>i. i mod n = 0) [Suc 0..<length xs])"
    by (simp add: batches_def)
  moreover have "hd xs \<in> set (take n xs)"
    using assms by (cases xs; cases n) auto
  ultimately show ?thesis by simp
qed

lemma delete_batches_shrinks:
  assumes "fst (find_duplicates n s t) \<noteq> []"
  shows "length (table_rows t (sdb (fst (delete_batches n t (fst (find_duplicates n s t)) (s, k)))))
         < length (table_rows t (sdb s))"
proof -
  let ?ids = "fst (find_duplicates n s t)"
  have n: "0 < n" using assms find_duplicates_limit0[of s t] by (cases n) auto
  have "hd ?ids \<in> set ?ids" using assms by simp
  then obtain r where r: "r \<in> set (table_rows t (sdb s))" "col_id r = hd ?ids"
    using find_duplicates_ids[of n s t] by auto
  have "col_id r \<in> \<Union> (set (map set (batches n ?ids)))"
    using batches_first[OF n assms] r by simp
  with r(1) show ?thesis
    unfolding delete_batches_def fold_delete_batch_rows
    by (simp add: length_filter_less)
qed

function delete_duplicates_loop ::
  "nat \<Rightarrow> table \<Rightarrow> session \<Rightarrow> nat \<Rightarrow> (row \<times> row) list \<Rightarrow> session \<times> nat \<times> (row \<times> row) list" where
  "delete_duplicates_loop n t s total_deleted_rows all_non_identical_duplicates =
     (if fst (find_duplicates n s t) = []
      then (s, total_deleted_rows, all_non_identical_duplicates)
      else delete_duplicates_loop n t
             (fst (delete_batches n t (fst (find_duplicates n s t)) (s, total_deleted_rows)))
             (snd (delete_batches n t (fst (find_duplicates n s t)) (s, total_deleted_rows)))
             (all_non_identical_duplicates @ snd (find_duplicates n s t)))"
  by pat_completeness auto
termination
  by (relation "measure (\<lambda>(n, t, s, k, a). length (table_rows t (sdb s)))")
     (auto simp: delete_batches_shrinks)

definition delete_duplicates_from_table ::
  "nat \<Rightarrow> session \<Rightarrow> table \<Rightarrow> session \<times> nat \<times> (row \<times> row) list" where
  "delete_duplicates_from_table n s t = delete_duplicates_loop n t s 0 []"

text \<open>\<open>delete_duplicates\<close>: the long-term table first; a backup file when that pass found
  non-identical duplicates; then the short-term table, whose list of non-identical
  duplicates is dropped. Log lines are left out.\<close>

definition delete_duplicates :: "nat \<Rightarrow> session \<Rightarrow> session" where
  "delete_duplicates n s =
     (let r1 = delete_duplicates_from_table n s Statistics;
          s1 = fst r1;
          non_identical_duplicates = snd (snd r1);
          s2 = (if non_identical_duplicates \<noteq> []
                then s1\<lparr>trace := trace s1 @ [Write_backup non_identical_duplicates]\<rparr>
                else s1);
          r2 = delete_duplicates_from_table n s2 StatisticsShortTerm
      in fst r2)"

section \<open>Concrete inputs\<close>

text \<open>Inputs on which the theorems below are evaluated. \<open>ex_converters\<close> is the instance of
  the converter parameters with the repository's formulas for the units used here
  (\<open>homeassistant.util.pressure\<close>, \<open>temperature\<close> and \<open>volume\<close>): equal units return the
  value; pascal to psi divides by 6894.757; Celsius to Fahrenheit is \<open>x * 1.8 + 32\<close>; cubic
  metres to cubic feet multiplies by 35.3146667 and cubic feet to cubic metres multiplies by
  0.0283168466, which is not the exact inverse.\<close>

definition ex_converters :: converters where
  "ex_converters =
     \<lparr>pressure_convert = (\<lambda>x f t. if f = t then x
          else if f = PRESSURE_PA \<and> t = ''psi'' then x / 6894.757
          else if f = ''psi'' \<and> t = PRESSURE_PA then x * 6894.757 else x),
      temperature_convert = (\<lambda>x f t. if f = t then x
          else if f = TEMP_CELSIUS \<and> t = [CHR 0xC2, CHR 0xB0, CHR ''F''] then x * 1.8 + 32
          else if f = [CHR 0xC2, CHR 0xB0, CHR ''F''] \<and> t = TEMP_CELSIUS then (x - 32) / 1.8
          else x),
      volume_convert = (\<lambda>x f t. if f = t then x
          else if f = VOLUME_CUBIC_METERS \<and> t = VOLUME_CUBIC_FEET then x * 35.3146667
          else if f = VOLUME_CUBIC_FEET \<and> t = VOLUME_CUBIC_METERS then x * 0.0283168466
          else x)\<rparr>"

definition ex_metric :: UnitSystem where
  "ex_metric = \<lparr>pressure_unit = PRESSURE_PA, temperature_unit = TEMP_CELSIUS, is_metric = True\<rparr>"

definition ex_imperial :: UnitSystem where
  "ex_imperial = \<lparr>pressure_unit = ''psi'',
                  temperature_unit = [CHR 0xC2, CHR 0xB0, CHR ''F''], is_metric = False\<rparr>"

definition ex_meta :: "int \<Rightarrow> string \<Rightarrow> string option \<Rightarrow> StatisticsMeta" where
  "ex_meta i sid unit =
     \<lparr>meta_id = i,
      meta_data = \<lparr>has_mean = True, has_sum = True, name = None, source = ''recorder'',
                   statistic_id = sid, unit_of_measurement = unit\<rparr>\<rparr>"

definition ex_row :: "int \<Rightarrow> int \<Rightarrow> instant \<Rightarrow> real option \<Rightarrow> real option \<Rightarrow> row" where
  "ex_row i m t v sm =
     \<lparr>col_id = i, col_created = 0, col_metadata_id = m, col_start = t, col_mean = v,
      col_min = v, col_max = v, col_last_reset = None, col_state = sm, col_sum = sm\<rparr>"

text \<open>A store with a gas meter in cubic metres and a pressure sensor: hourly rows at
  00:00 and 01:00, and five-minute rows at 00:55, 01:00 and 01:05.\<close>

definition ex_db :: db where
  "ex_db =
     \<lparr>statistics_meta = [ex_meta 1 ''sensor.gas'' (Some VOLUME_CUBIC_METERS),
                         ex_meta 2 ''sensor.pressure'' (Some PRESSURE_PA)],
      statistics = [ex_row 1 1 0 (Some 1) (Some 10), ex_row 2 1 3600000000 (Some 2) (Some 20),
                    ex_row 3 2 3600000000 (Some 3) (Some 30)],
      statistics_short_term = [ex_row 1 1 3300000000 (Some 1) (Some 10),
                               ex_row 2 1 3600000000 (Some 2) (Some 20),
                               ex_row 3 1 3900000000 (Some 3) None],
      statistics_runs = [3300000000, 3600000000, 3900000000]\<rparr>"

text \<open>One hour of five-minute rows of one series with the means 1 to 12, and three
  rows of a series that only has a sum.\<close>

definition ex_hour_rows :: "row list" where
  "ex_hour_rows =
     [ex_row 1 1 0 (Some 1) (Some 10), ex_row 2 1 300000000 (Some 2) (Some 20),
      ex_row 3 1 600000000 (Some 3) (Some 30), ex_row 4 1 900000000 (Some 4) (Some 40),
      ex_row 5 1 1200000000 (Some 5) (Some 50), ex_row 6 1 1500000000 (Some 6) (Some 60),
      ex_row 7 1 1800000000 (Some 7) (Some 70), ex_row 8 1 2100000000 (Some 8) (Some 80),
      ex_row 9 1 2400000000 (Some 9) (Some 90), ex_row 10 1 2700000000 (Some 10) (Some 100),
      ex_row 11 1 3000000000 (Some 11) (Some 110), ex_row 12 1 3300000000 (Some 12) (Some 120)]"

definition ex_db_hour :: db where
  "ex_db_hour =
     \<lparr>statistics_meta = [ex_meta 1 ''sensor.gas'' (Some VOLUME_CUBIC_METERS)],
      statistics = [],
      statistics_short_term = ex_hour_rows,
      statistics_runs = map col_start ex_hour_rows\<rparr>"

definition ex_sum_latest :: row where
  "ex_sum_latest =
     \<lparr>col_id = 2, col_created = 0, col_metadata_id = 3, col_start = 3300000000,
      col_mean = None, col_min = None, col_max = None, col_last_reset = Some 1800000000,
      col_state = Some 2, col_sum = Some 7\<rparr>"

definition ex_sum_rows :: "row list" where
  "ex_sum_rows =
     [\<lparr>col_id = 1, col_created = 0, col_metadata_id = 3, col_start = 0, col_mean = None,
       col_min = None, col_max = None, col_last_reset = Some 0, col_state = Some 5,
       col_sum = Some 5\<rparr>,
      ex_sum_latest,
      \<lparr>col_id = 3, col_created = 0, col_metadata_id = 3, col_start = 1800000000,
       col_mean = None, col_min = None, col_max = None, col_last_reset = Some 1800000000,
       col_state = Some 1, col_sum = Some 6\<rparr>]"

definition ex_db_sum :: db where
  "ex_db_sum = \<lparr>statistics_meta = [ex_meta 3 ''sensor.energy'' (Some ''kWh'')],
                statistics = [], statistics_short_term = ex_sum_rows, statistics_runs = []\<rparr>"

definition ex_platform :: "datetime \<Rightarrow> datetime \<Rightarrow> PlatformCompiledStatistics" where
  "ex_platform strt end_time =
     \<lparr>platform_stats =
        [\<lparr>meta = meta_data (ex_meta 1 ''sensor.gas'' (Some VOLUME_CUBIC_METERS)),
          stat = \<lparr>start = strt, mean = Some 12, min_v = Some 12, max_v = Some 12,
                  last_reset = None, state = Some 120, sum_v = Some 120\<rparr>\<rparr>],
      current_metadata =
        [(''sensor.gas'', (1, meta_data (ex_meta 1 ''sensor.gas'' (Some VOLUME_CUBIC_METERS))))]\<rparr>"



definition ex_external_meta :: StatisticMetaData where
  "ex_external_meta = \<lparr>has_mean = False, has_sum = True, name = Some ''Gas'', source = ''ext'',
                        statistic_id = ''ext:gas'', unit_of_measurement = Some ''kWh''\<rparr>"

definition ex_external_sample :: "datetime \<Rightarrow> StatisticData" where
  "ex_external_sample strt = \<lparr>start = strt, mean = None, min_v = None, max_v = None,
                               last_reset = None, state = Some 3, sum_v = Some 9\<rparr>"

section \<open>Properties\<close>

lemma new_session_sdb: "sdb (new_session d) = d"
  by (simp add: new_session_def)

subsection \<open>Dictionaries built by a loop\<close>

lemma fold_update_other:
  "key \<notin> k ` set xs \<Longrightarrow>
   map_of (fold (\<lambda>m d. AList.update (k m) (v m) d) xs acc) key = map_of acc key"
  by (induction xs arbitrary: acc) (auto simp: update_conv')

lemma fold_update_distinct:
  "distinct (map k xs) \<Longrightarrow> x \<in> set xs \<Longrightarrow>
   map_of (fold (\<lambda>m d. AList.update (k m) (v m) d) xs acc) (k x) = Some (v x)"
proof (induction xs arbitrary: acc)
  case Nil
  then show ?case by simp
next
  case (Cons a xs)
  show ?case
  proof (cases "x = a")
    case True
    with Cons.prems have "k a \<notin> k ` set xs" by auto
    then show ?thesis using True by (simp add: fold_update_other update_conv')
  next
    case False
    with Cons show ?thesis by simp
  qed
qed

lemma get_metadata_unknown:
  "sid \<notin> (statistic_id \<circ> meta_data) ` set (statistics_meta (sdb s)) \<Longrightarrow>
   map_of (get_metadata_with_session s ids stype src) sid = None"
  unfolding get_metadata_with_session_def Let_def
  by (subst fold_update_other) auto

lemma get_metadata_known:
  assumes "distinct (map (statistic_id \<circ> meta_data) (statistics_meta (sdb s)))"
    and "m \<in> set (statistics_meta (sdb s))"
    and "generate_get_metadata_stmt ids stype src m"
  shows "map_of (get_metadata_with_session s ids stype src) (statistic_id (meta_data m))
         = Some (meta_id m, meta_data m)"
proof -
  let ?r = "filter (generate_get_metadata_stmt ids stype src) (statistics_meta (sdb s))"
  have d: "distinct (map (\<lambda>m. statistic_id (meta_data m)) ?r)"
    using assms(1) by (simp add: distinct_map_filter comp_def)
  have "m \<in> set ?r" using assms by simp
  from fold_update_distinct[OF d this, of "\<lambda>m. (meta_id m, meta_data m)" "[]"]
  show ?thesis by (simp add: get_metadata_with_session_def)
qed

subsection \<open>Hours\<close>

lemma minute_aligned:
  assumes "(w div 1000000) mod 60 = 0" "w mod 1000000 = (0::int)"
  shows "w mod 60000000 = 0"
proof -
  from assms(2) obtain a where a: "w = 1000000 * a" by (auto simp: mod_eq_0_iff_dvd)
  with assms(1) have "a mod 60 = 0" by simp
  then obtain b where "a = 60 * b" by (auto simp: mod_eq_0_iff_dvd)
  with a show ?thesis by simp
qed

lemma hour_floor:
  assumes "(w::int) mod 60000000 = 0"
  shows "w - ((w div 60000000) mod 60) * 60000000 = (w div 3600000000) * 3600000000"
proof -
  from assms obtain q where q: "w = 60000000 * q" by (auto simp: mod_eq_0_iff_dvd)
  have "(60000000 * q) div (60000000 * 60) = q div (60::int)"
    by (rule div_mult_mult1) simp
  then have h: "w div 3600000000 = q div 60" by (simp add: q)
  have m: "q - q mod 60 = 60 * (q div 60)" by (simp add: minus_mod_eq_mult_div)
  have "w - ((w div 60000000) mod 60) * 60000000 = 60000000 * (q - q mod 60)"
    by (simp add: q algebra_simps)
  also have "\<dots> = (q div 60) * 3600000000" by (simp add: m)
  finally show ?thesis by (simp add: h)
qed

lemma replace_minute0_hour:
  assumes "dt_second T = 0" "dt_microsecond T = 0"
  shows "bound_parameter (replace_minute0 T) = bound_parameter T div 3600000000 * 3600000000"
proof -
  have al: "wall T mod 60000000 = 0"
    using assms by (intro minute_aligned) (simp_all add: dt_second_def dt_microsecond_def)
  have "wall T - dt_minute T * 60000000 = wall T div 3600000000 * 3600000000"
    using hour_floor[OF al] by (simp add: dt_minute_def)
  then show ?thesis by (simp add: bound_parameter_def replace_minute0_def)
qed

subsection \<open>Sum Adjuster\<close>

text \<open>
  C9. \<open>adjust_statistics\<close> for a statistic id that no metadata row carries returns \<open>True\<close>
  and leaves every table as it was.
\<close>

theorem adjust_statistics_unknown_id:
  assumes "sid \<notin> (statistic_id \<circ> meta_data) ` set (statistics_meta d)"
  shows "adjust_statistics cv units d sid start_time adj = (d, True)"
  using get_metadata_unknown[of sid "new_session d" "Some [sid]" None None] assms
  by (simp add: adjust_statistics_def new_session_sdb Let_def)

theorem adjust_statistics_unknown_id_witness:
  "''sensor.gone'' \<notin> (statistic_id \<circ> meta_data) ` set (statistics_meta ex_db)
   \<and> adjust_statistics ex_converters ex_imperial ex_db ''sensor.gone'' (utc_datetime 0) 5
       = (ex_db, True)"
proof -
  have h: "''sensor.gone'' \<notin> (statistic_id \<circ> meta_data) ` set (statistics_meta ex_db)"
    by (simp add: ex_db_def ex_meta_def)
  show ?thesis using h adjust_statistics_unknown_id[OF h] by simp
qed

lemma units_distinct:
  "PRESSURE_PA \<noteq> TEMP_CELSIUS" "PRESSURE_PA \<noteq> VOLUME_CUBIC_METERS"
  "PRESSURE_PA \<noteq> VOLUME_CUBIC_FEET" "TEMP_CELSIUS \<noteq> VOLUME_CUBIC_METERS"
  "TEMP_CELSIUS \<noteq> VOLUME_CUBIC_FEET" "VOLUME_CUBIC_METERS \<noteq> VOLUME_CUBIC_FEET"
  "TEMP_CELSIUS \<noteq> PRESSURE_PA" "VOLUME_CUBIC_METERS \<noteq> PRESSURE_PA"
  "VOLUME_CUBIC_FEET \<noteq> PRESSURE_PA" "VOLUME_CUBIC_METERS \<noteq> TEMP_CELSIUS"
  "VOLUME_CUBIC_FEET \<noteq> TEMP_CELSIUS" "VOLUME_CUBIC_FEET \<noteq> VOLUME_CUBIC_METERS"
  by (simp_all add: PRESSURE_PA_def TEMP_CELSIUS_def VOLUME_CUBIC_METERS_def
        VOLUME_CUBIC_FEET_def)

lemma to_normalized_eq:
  "to_normalized cv units unit x =
     (if configured_unit unit units = Some VOLUME_CUBIC_FEET
      then volume_convert cv x
             (if is_metric units then VOLUME_CUBIC_METERS else VOLUME_CUBIC_FEET)
             VOLUME_CUBIC_METERS
      else x)"
  by (cases "configured_unit unit units")
     (simp_all add: to_normalized_def dict_get_def DISPLAY_UNIT_TO_STATISTIC_UNIT_CONVERSIONS_def
        configured_unit_def[of "Some VOLUME_CUBIC_METERS"] units_distinct Let_def)

text \<open>
  C6, as amended. For a series with a metadata row and a start time \<open>T\<close> with zero seconds
  and microseconds, \<open>adjust_statistics\<close> adds \<open>delta\<close> to the sum of every short-term row of
  the series with \<open>start \<ge> T\<close> and of every long-term row with \<open>start\<close> at or after the start
  of the hour containing \<open>T\<close>, and returns \<open>True\<close>; a sum that is absent stays absent, no
  other column changes, every other row and the other tables stay as they were. \<open>T\<close> is
  compared by its clock fields, which the caller gives in UTC: the offset of an aware \<open>T\<close>
  is not applied. \<open>delta\<close> is the adjustment converted by the volume converter when the
  display unit of the series is cubic feet, and the adjustment itself for every other unit.
\<close>

theorem adjust_statistics_from_instant:
  assumes dm: "distinct (map (statistic_id \<circ> meta_data) (statistics_meta d))"
    and m: "m \<in> set (statistics_meta d)"
    and sec: "dt_second T = 0" "dt_microsecond T = 0"
  shows "(let delta = (if configured_unit (unit_of_measurement (meta_data m)) units
                          = Some VOLUME_CUBIC_FEET
                       then volume_convert cv adj
                              (if is_metric units then VOLUME_CUBIC_METERS else VOLUME_CUBIC_FEET)
                              VOLUME_CUBIC_METERS
                       else adj);
              H = bound_parameter T div 3600000000 * 3600000000;
              result = adjust_statistics cv units d (statistic_id (meta_data m)) T adj;
              d' = fst result
          in snd result
             \<and> statistics_meta d' = statistics_meta d \<and> statistics_runs d' = statistics_runs d
             \<and> statistics_short_term d' =
                 map (\<lambda>r. if col_metadata_id r = meta_id m \<and> bound_parameter T \<le> col_start r
                          then r\<lparr>col_sum := map_option (\<lambda>v. v + delta) (col_sum r)\<rparr> else r)
                   (statistics_short_term d)
             \<and> statistics d' =
                 map (\<lambda>r. if col_metadata_id r = meta_id m \<and> H \<le> col_start r
                          then r\<lparr>col_sum := map_option (\<lambda>v. v + delta) (col_sum r)\<rparr> else r)
                   (statistics d))"
proof -
  have g: "generate_get_metadata_stmt (Some [statistic_id (meta_data m)]) None None m"
    by (simp add: generate_get_metadata_stmt_def)
  have lk: "map_of (get_metadata_with_session (new_session d) (Some [statistic_id (meta_data m)])
               None None) (statistic_id (meta_data m)) = Some (meta_id m, meta_data m)"
    using get_metadata_known[of "new_session d" m, OF _ _ g] dm m
    by (simp add: new_session_sdb)
  have hr: "bound_parameter (replace_minute0 T) = bound_parameter T div 3600000000 * 3600000000"
    by (rule replace_minute0_hour[OF sec])
  show ?thesis
    unfolding adjust_statistics_def Let_def lk
    by (simp add: adjust_sum_statistics_def table_rows_def set_table_rows_def new_session_sdb
        hr to_normalized_eq)
qed

text \<open>
  The claim as stated fails for a pressure series under a unit system that displays psi:
  an adjustment of 1 (psi) is added as 1 to a sum kept in Pa.
\<close>

theorem adjust_statistics_pressure_counterexample: "configured_unit (Some PRESSURE_PA) ex_imperial = Some ''psi''
   \<and> pressure_convert ex_converters 1 ''psi'' PRESSURE_PA = 6894.757
   \<and> map col_sum (statistics (fst (adjust_statistics ex_converters ex_imperial ex_db
        ''sensor.pressure'' (utc_datetime 3600000000) 1))) = [Some 10, Some 20, Some 31]"
  by (simp add: adjust_statistics_def get_metadata_with_session_def new_session_def ex_db_def ex_meta_def
     generate_get_metadata_stmt_def Let_def to_normalized_def configured_unit_def ex_imperial_def
     PRESSURE_PA_def TEMP_CELSIUS_def VOLUME_CUBIC_METERS_def VOLUME_CUBIC_FEET_def dict_get_def
     DISPLAY_UNIT_TO_STATISTIC_UNIT_CONVERSIONS_def adjust_sum_statistics_def table_rows_def set_table_rows_def
     ex_row_def utc_datetime_def bound_parameter_def replace_minute0_def dt_minute_def ex_converters_def)

text \<open>The gas meter of \<open>ex_db\<close> under a unit system that displays cubic feet, adjusted by
  100 cubic feet, which are 2.83168466 cubic metres. From 00:55 all three five-minute rows
  and both hourly rows of the series are at or after the threshold, the hourly row at 00:00
  included. From 01:05 the only five-minute row is the one without a sum, and the hourly row
  at 01:00, which starts before \<open>T\<close>, is adjusted.\<close>

theorem adjust_statistics_from_instant_witness:
  "distinct (map (statistic_id \<circ> meta_data) (statistics_meta ex_db))
   \<and> ex_meta 1 ''sensor.gas'' (Some VOLUME_CUBIC_METERS) \<in> set (statistics_meta ex_db)
   \<and> dt_second (utc_datetime 3300000000) = 0 \<and> dt_microsecond (utc_datetime 3300000000) = 0
   \<and> dt_second (utc_datetime 3900000000) = 0 \<and> dt_microsecond (utc_datetime 3900000000) = 0
   \<and> snd (adjust_statistics ex_converters ex_imperial ex_db ''sensor.gas''
            (utc_datetime 3300000000) 100)
   \<and> map col_sum (statistics_short_term (fst (adjust_statistics ex_converters ex_imperial ex_db
         ''sensor.gas'' (utc_datetime 3300000000) 100)))
       = [Some 12.83168466, Some 22.83168466, None]
   \<and> map col_sum (statistics (fst (adjust_statistics ex_converters ex_imperial ex_db
         ''sensor.gas'' (utc_datetime 3300000000) 100)))
       = [Some 12.83168466, Some 22.83168466, Some 30]
   \<and> map col_sum (statistics_short_term (fst (adjust_statistics ex_converters ex_imperial ex_db
         ''sensor.gas'' (utc_datetime 3900000000) 100)))
       = [Some 10, Some 20, None]
   \<and> map col_sum (statistics (fst (adjust_statistics ex_converters ex_imperial ex_db
         ''sensor.gas'' (utc_datetime 3900000000) 100)))
       = [Some 10, Some 22.83168466, Some 30]"
proof -
  have h1: "distinct (map (statistic_id \<circ> meta_data) (statistics_meta ex_db))"
    by (simp add: ex_db_def ex_meta_def)
  have h2: "ex_meta 1 ''sensor.gas'' (Some VOLUME_CUBIC_METERS) \<in> set (statistics_meta ex_db)"
    by (simp add: ex_db_def)
  have h3: "dt_second (utc_datetime 3300000000) = 0" "dt_second (utc_datetime 3900000000) = 0"
    by (simp_all add: dt_second_def utc_datetime_def)
  have h4: "dt_microsecond (utc_datetime 3300000000) = 0"
    "dt_microsecond (utc_datetime 3900000000) = 0"
    by (simp_all add: dt_microsecond_def utc_datetime_def)
  have m: "statistic_id (meta_data (ex_meta 1 ''sensor.gas'' (Some VOLUME_CUBIC_METERS)))
             = ''sensor.gas''"
    by (simp add: ex_meta_def)
  from adjust_statistics_from_instant[OF h1 h2 h3(1) h4(1), of ex_imperial ex_converters 100]
       adjust_statistics_from_instant[OF h1 h2 h3(2) h4(2), of ex_imperial ex_converters 100]
  show ?thesis using h1 h2 h3 h4 unfolding m
    by (simp add: Let_def ex_meta_def configured_unit_def units_distinct ex_imperial_def
        ex_converters_def ex_db_def ex_row_def utc_datetime_def bound_parameter_def)
qed

text \<open>With seconds in \<open>T\<close> the long-term threshold keeps them: at 01:00:30 the hourly row
  at 01:00 is not adjusted.\<close>

lemma adjust_statistics_seconds_stay:
  "dt_second (utc_datetime 3630000000) = 30
   \<and> map col_sum (statistics (fst (adjust_statistics ex_converters ex_metric ex_db
         ''sensor.gas'' (utc_datetime 3630000000) 5))) = [Some 10, Some 20, Some 30]"
  by (simp add: adjust_statistics_def get_metadata_with_session_def new_session_def ex_db_def ex_meta_def
     generate_get_metadata_stmt_def Let_def to_normalized_def configured_unit_def ex_metric_def
     units_distinct dict_get_def dt_second_def
     DISPLAY_UNIT_TO_STATISTIC_UNIT_CONVERSIONS_def adjust_sum_statistics_def table_rows_def set_table_rows_def
     ex_row_def utc_datetime_def bound_parameter_def replace_minute0_def dt_minute_def ex_converters_def)

text \<open>The offset of \<open>T\<close> is not applied: 02:00 at +01:00, which is 01:00 UTC, is compared as
  02:00, and no row of \<open>ex_db\<close>, whose latest rows start at 01:00 and 01:05, is adjusted.\<close>

lemma adjust_statistics_offset_not_applied:
  "db_instant \<lparr>wall = 7200000000, tzoff = Some 3600000000\<rparr> = 3600000000
   \<and> fst (adjust_statistics ex_converters ex_metric ex_db ''sensor.gas''
            \<lparr>wall = 7200000000, tzoff = Some 3600000000\<rparr> 5) = ex_db"
  by (simp add: adjust_statistics_def get_metadata_with_session_def new_session_def ex_db_def ex_meta_def
     generate_get_metadata_stmt_def Let_def to_normalized_def configured_unit_def ex_metric_def
     units_distinct dict_get_def db_instant_def
     DISPLAY_UNIT_TO_STATISTIC_UNIT_CONVERSIONS_def adjust_sum_statistics_def table_rows_def set_table_rows_def
     ex_row_def bound_parameter_def replace_minute0_def dt_minute_def ex_converters_def)

subsection \<open>Short-Term Compiler\<close>

text \<open>
  C4. When a run marker exists for the start of the period (as a UTC instant),
  \<open>compile_statistics\<close> returns \<open>True\<close>, writes nothing and leaves every table as it was.
\<close>

theorem compile_statistics_already_compiled:
  assumes "db_instant (as_utc tz start0) \<in> set (statistics_runs d)"
  shows "sdb (fst (compile_statistics tz now platforms d start0)) = d
         \<and> trace (fst (compile_statistics tz now platforms d start0)) = []
         \<and> snd (compile_statistics tz now platforms d start0)"
  using assms by (simp add: compile_statistics_def Let_def new_session_def)

subsection \<open>Hourly Rollup\<close>

lemma session_add_row_Statistics:
  "session_add_row now Statistics mk s =
     \<lparr>sdb = (sdb s)\<lparr>statistics := statistics (sdb s)
                 @ [mk (next_id (map col_id (statistics (sdb s)))) now]\<rparr>,
      trace = trace s @ [Add_row Statistics (mk (next_id (map col_id (statistics (sdb s)))) now)]\<rparr>"
  by (simp add: session_add_row_def table_rows_def set_table_rows_def Let_def)

lemma fold_add_rows:
  "\<exists>ids. length ids = length xs \<and>
     fold (\<lambda>(mid, st) s'. session_add_row now Statistics (from_stats mid st) s') xs s =
       \<lparr>sdb = (sdb s)\<lparr>statistics := statistics (sdb s)
                   @ map (\<lambda>((mid, st), i). from_stats mid st i now) (zip xs ids)\<rparr>,
        trace = trace s
                   @ map (\<lambda>((mid, st), i). Add_row Statistics (from_stats mid st i now)) (zip xs ids)\<rparr>"
proof (induction xs arbitrary: s)
  case Nil
  show ?case by simp
next
  case (Cons x xs)
  obtain mid st where x: "x = (mid, st)" by (cases x)
  let ?s1 = "session_add_row now Statistics (from_stats mid st) s"
  let ?i = "next_id (map col_id (statistics (sdb s)))"
  from Cons.IH[of ?s1] obtain ids where ids: "length ids = length xs"
    and eq: "fold (\<lambda>(mid, st) s'. session_add_row now Statistics (from_stats mid st) s') xs ?s1 =
       \<lparr>sdb = (sdb ?s1)\<lparr>statistics := statistics (sdb ?s1)
                   @ map (\<lambda>((mid, st), i). from_stats mid st i now) (zip xs ids)\<rparr>,
        trace = trace ?s1
                   @ map (\<lambda>((mid, st), i). Add_row Statistics (from_stats mid st i now)) (zip xs ids)\<rparr>"
    by blast
  let ?F = "\<lambda>(mid, st) s'. session_add_row now Statistics (from_stats mid st) s'"
  have "fold ?F (x # xs) s = fold ?F xs ?s1" by (simp add: x)
  also note eq
  finally have "fold ?F (x # xs) s =
       \<lparr>sdb = (sdb s)\<lparr>statistics := statistics (sdb s)
                   @ map (\<lambda>((mid, st), i). from_stats mid st i now) (zip (x # xs) (?i # ids))\<rparr>,
        trace = trace s
                   @ map (\<lambda>((mid, st), i). Add_row Statistics (from_stats mid st i now))
                       (zip (x # xs) (?i # ids))\<rparr>"
    by (simp add: session_add_row_Statistics x)
  with ids show ?case by (intro exI[of _ "?i # ids"]) simp
qed

lemma zip_upt_no_smaller:
  "k < m \<Longrightarrow> filter (\<lambda>(r, n). n = k) (zip xs [m..<j]) = []"
  by (auto simp: filter_empty_conv dest!: set_zip_rightD)

lemma rownum1:
  assumes "part \<noteq> []"
  shows "filter (\<lambda>(r, n). n = 1) (zip part [1..<Suc (length part)]) = [(hd part, 1)]"
proof -
  from assms obtain x xs where p: "part = x # xs" by (cases part) auto
  have u: "[1..<Suc (length (x # xs))] = 1 # [2..<Suc (length (x # xs))]"
    by (simp add: upt_conv_Cons numeral_2_eq_2 del: upt_Suc)
  show ?thesis
    unfolding p u by (simp add: zip_upt_no_smaller del: upt_Suc)
qed


lemma fold_upd_other:
  "k \<notin> key ` set xs \<Longrightarrow>
   map_of (fold (\<lambda>x acc. AList.update (key x) (g x (map_of acc (key x))) acc) xs acc) k
     = map_of acc k"
  by (induction xs arbitrary: acc) (auto simp: update_conv')

lemma fold_upd_at:
  "distinct (map key xs) \<Longrightarrow> x \<in> set xs \<Longrightarrow>
   map_of (fold (\<lambda>x acc. AList.update (key x) (g x (map_of acc (key x))) acc) xs acc) (key x)
     = Some (g x (map_of acc (key x)))"
proof (induction xs arbitrary: acc)
  case Nil
  then show ?case by simp
next
  case (Cons a xs)
  show ?case
  proof (cases "x = a")
    case True
    with Cons.prems have "key a \<notin> key ` set xs" by auto
    then show ?thesis using True by (simp add: fold_upd_other update_conv')
  next
    case False
    with Cons.prems have "x \<in> set xs" "key a \<noteq> key x" "distinct (map key xs)" by auto
    with Cons.IH show ?thesis by (simp add: update_conv')
  qed
qed

lemma fold_upd_distinct:
  "distinct (map fst acc) \<Longrightarrow>
   distinct (map fst (fold (\<lambda>x acc. AList.update (key x) (g x (map_of acc (key x))) acc) xs acc))"
  by (induction xs arbitrary: acc) (auto simp: distinct_update)

lemma fold_upd_dom:
  "fst ` set (fold (\<lambda>x acc. AList.update (key x) (g x (map_of acc (key x))) acc) xs acc)
     = fst ` set acc \<union> key ` set xs"
  by (induction xs arbitrary: acc) (auto simp: dom_update)

lemma zip_filter_key:
  "distinct (map fst al) \<Longrightarrow> map_of al m = Some st \<Longrightarrow> length ids = length al \<Longrightarrow>
   \<exists>i. filter (\<lambda>((k, v), i). k = m) (zip al ids) = [((m, st), i)]"
proof (induction al arbitrary: ids)
  case Nil
  then show ?case by simp
next
  case (Cons p al)
  obtain k v where p: "p = (k, v)" by (cases p)
  from Cons.prems(3) obtain j js where ids: "ids = j # js" "length js = length al"
    by (cases ids) auto
  show ?case
  proof (cases "k = m")
    case True
    with Cons.prems p have "m \<notin> fst ` set al" "v = st" by auto
    then have "filter (\<lambda>((k, v), i). k = m) (zip al js) = []"
      by (force simp: filter_empty_conv dest!: set_zip_leftD)
    with True \<open>v = st\<close> show ?thesis by (simp add: p ids)
  next
    case False
    with Cons.prems p have "distinct (map fst al)" "map_of al m = Some st" by auto
    from Cons.IH[OF this ids(2)] False show ?thesis by (simp add: p ids)
  qed
qed

lemma hd_sort_key_latest:
  assumes "r \<in> set g"
    and "\<forall>x \<in> set g. x \<noteq> r \<longrightarrow> col_start x < col_start r"
  shows "hd (sort_key (\<lambda>r. - col_start r) g) = r"
proof -
  let ?xs = "sort_key (\<lambda>r. - col_start r) g"
  have ne: "?xs \<noteq> []" using assms(1) by (metis empty_iff list.set(1) set_sort)
  then have hd_in: "hd ?xs \<in> set g" by (metis hd_in_set set_sort)
  have "sorted (map (\<lambda>r. - col_start r) ?xs)" by simp
  moreover have "r \<in> set ?xs" using assms(1) by simp
  ultimately have "- col_start (hd ?xs) \<le> - col_start r"
    using ne by (cases ?xs) auto
  with assms(2) hd_in show ?thesis by force
qed


lemma summary_mean_stmt_keys:
  "map fst (compile_hourly_statistics_summary_mean_stmt tbl a b)
     = sort (remdups (map col_metadata_id (filter (in_period a b) tbl)))"
  by (simp add: compile_hourly_statistics_summary_mean_stmt_def Let_def comp_def)

lemma filter_rownum_map:
  "filter (\<lambda>(metadata_id, st, lr, sta, sm, rownum). rownum = k)
     (map (\<lambda>(r, n). (f1 r, f2 r, f3 r, f4 r, f5 r, n)) xs)
   = map (\<lambda>(r, n). (f1 r, f2 r, f3 r, f4 r, f5 r, n)) (filter (\<lambda>(r, n). n = k) xs)"
  by (induction xs) auto

lemma summary_sum_query_eq:
  "summary_sum_query tbl a b =
     map (\<lambda>m. let r = hd (sort_key (\<lambda>r. - col_start r)
                           (filter (\<lambda>r. col_metadata_id r = m) (filter (in_period a b) tbl)))
               in (m, col_start r, col_last_reset r, col_state r, col_sum r, 1))
       (sort (remdups (map col_metadata_id (filter (in_period a b) tbl))))"
proof -
  let ?sel = "filter (in_period a b) tbl"
  let ?ids = "sort (remdups (map col_metadata_id ?sel))"
  let ?part = "\<lambda>m. sort_key (\<lambda>r. - col_start r) (filter (\<lambda>r. col_metadata_id r = m) ?sel)"
  let ?row = "\<lambda>(r, n::nat). (col_metadata_id r, col_start r, col_last_reset r, col_state r, col_sum r, n)"
  have one: "filter (\<lambda>(metadata_id, st, lr, sta, sm, rownum). rownum = 1)
               (map ?row (zip (?part m) [1..<Suc (length (?part m))]))
             = [(m, col_start (hd (?part m)), col_last_reset (hd (?part m)),
                 col_state (hd (?part m)), col_sum (hd (?part m)), 1)]"
    if "m \<in> set ?ids" for m
  proof -
    from that obtain r where "r \<in> set ?sel" "col_metadata_id r = m" by auto
    then have "r \<in> set (?part m)" by simp
    then have ne: "?part m \<noteq> []" by (metis empty_iff list.set(1))
    then have "hd (?part m) \<in> set (?part m)" by (rule hd_in_set)
    then have mh: "col_metadata_id (hd (?part m)) = m" by simp
    have "filter (\<lambda>(metadata_id, st, lr, sta, sm, rownum). rownum = 1)
               (map ?row (zip (?part m) [1..<Suc (length (?part m))]))
          = map ?row (filter (\<lambda>(r, n). n = 1) (zip (?part m) [1..<Suc (length (?part m))]))"
      by (rule filter_rownum_map)
    also have "\<dots> = map ?row [(hd (?part m), 1)]"
      by (simp only: rownum1[OF ne])
    finally have e: "filter (\<lambda>(metadata_id, st, lr, sta, sm, rownum). rownum = 1)
               (map ?row (zip (?part m) [1..<Suc (length (?part m))]))
          = map ?row [(hd (?part m), 1)]" .
    show ?thesis unfolding e using mh by simp
  qed
  have "summary_sum_query tbl a b =
          concat (map (\<lambda>m. filter (\<lambda>(metadata_id, st, lr, sta, sm, rownum). rownum = 1)
                 (map ?row (zip (?part m) [1..<Suc (length (?part m))]))) ?ids)"
    by (simp only: summary_sum_query_def summary_sum_subquery_def Let_def filter_concat map_map
          comp_def)
  also have "\<dots> = concat (map (\<lambda>m. [(m, col_start (hd (?part m)), col_last_reset (hd (?part m)),
                 col_state (hd (?part m)), col_sum (hd (?part m)), 1)]) ?ids)"
  proof (rule arg_cong[where f = concat], rule map_cong[OF refl])
    fix m assume "m \<in> set ?ids"
    then show "filter (\<lambda>(metadata_id, st, lr, sta, sm, rownum). rownum = 1)
                 (map ?row (zip (?part m) [1..<Suc (length (?part m))]))
               = [(m, col_start (hd (?part m)), col_last_reset (hd (?part m)),
                   col_state (hd (?part m)), col_sum (hd (?part m)), 1)]"
      by (rule one)
  qed
  finally show ?thesis by (simp add: Let_def)
qed


lemma hourly_summary_folds:
  "hourly_summary tbl st et =
     fold (\<lambda>x acc. AList.update (fst x)
             (case map_of acc (fst x) of
                Some e \<Rightarrow> e\<lparr>last_reset := process_timestamp (fst (snd (snd x))),
                            state := fst (snd (snd (snd x))),
                            sum_v := fst (snd (snd (snd (snd x))))\<rparr>
              | None \<Rightarrow> \<lparr>start = st, mean = None, min_v = None, max_v = None,
                          last_reset = process_timestamp (fst (snd (snd x))),
                          state = fst (snd (snd (snd x))),
                          sum_v = fst (snd (snd (snd (snd x))))\<rparr>) acc)
       (summary_sum_query tbl (db_instant st) (db_instant et))
       (fold (\<lambda>x acc. AList.update (fst x)
                \<lparr>start = st, mean = fst (snd x), min_v = fst (snd (snd x)),
                 max_v = snd (snd (snd x)), last_reset = None, state = None, sum_v = None\<rparr> acc)
          (compile_hourly_statistics_summary_mean_stmt tbl (db_instant st) (db_instant et)) [])"
proof -
  have f1: "(\<lambda>(metadata_id, m, mn, mx) sm.
              AList.update metadata_id
                \<lparr>start = st, mean = m, min_v = mn, max_v = mx,
                 last_reset = None, state = None, sum_v = None\<rparr> sm)
           = (\<lambda>x acc. AList.update (fst x)
                \<lparr>start = st, mean = fst (snd x), min_v = fst (snd (snd x)),
                 max_v = snd (snd (snd x)), last_reset = None, state = None, sum_v = None\<rparr> acc)"
    by (auto simp: fun_eq_iff)
  have f2: "(\<lambda>(metadata_id, st', lr, sta, sm, rownum) smry.
                 (case map_of smry metadata_id of
                    Some e \<Rightarrow> AList.update metadata_id
                               (e\<lparr>last_reset := process_timestamp lr, state := sta,
                                  sum_v := sm\<rparr>) smry
                  | None \<Rightarrow> AList.update metadata_id
                              \<lparr>start = st, mean = None, min_v = None,
                               max_v = None, last_reset = process_timestamp lr,
                               state = sta, sum_v = sm\<rparr> smry))
           = (\<lambda>x acc. AList.update (fst x)
             (case map_of acc (fst x) of
                Some e \<Rightarrow> e\<lparr>last_reset := process_timestamp (fst (snd (snd x))),
                            state := fst (snd (snd (snd x))),
                            sum_v := fst (snd (snd (snd (snd x))))\<rparr>
              | None \<Rightarrow> \<lparr>start = st, mean = None, min_v = None, max_v = None,
                          last_reset = process_timestamp (fst (snd (snd x))),
                          state = fst (snd (snd (snd x))),
                          sum_v = fst (snd (snd (snd (snd x))))\<rparr>) acc)"
    by (auto simp: fun_eq_iff split: option.splits)
  show ?thesis
    unfolding hourly_summary_def Let_def f1 f2 ..
qed

lemma hourly_summary_distinct: "distinct (map fst (hourly_summary tbl st et))"
  unfolding hourly_summary_folds
  by (intro fold_upd_distinct[where g = "\<lambda>x old. case old of Some e \<Rightarrow> _ x e | None \<Rightarrow> _ x"]
        fold_upd_distinct[where g = "\<lambda>x old. _ x"]) simp


lemma map_in: "m \<in> set xs \<Longrightarrow> f m = y \<Longrightarrow> y \<in> set (map f xs)"
  by auto

lemma hourly_summary_at:
  assumes r: "r \<in> set tbl" "in_period (db_instant st) (db_instant et) r"
  defines "G \<equiv> filter (\<lambda>x. col_metadata_id x = col_metadata_id r)
                  (filter (in_period (db_instant st) (db_instant et)) tbl)"
  shows "map_of (hourly_summary tbl st et) (col_metadata_id r) =
           Some \<lparr>start = st, mean = sql_avg (map col_mean G), min_v = sql_min (map col_min G),
                 max_v = sql_max (map col_max G),
                 last_reset = process_timestamp
                                (col_last_reset (hd (sort_key (\<lambda>r. - col_start r) G))),
                 state = col_state (hd (sort_key (\<lambda>r. - col_start r) G)),
                 sum_v = col_sum (hd (sort_key (\<lambda>r. - col_start r) G))\<rparr>"
proof -
  let ?a = "db_instant st" and ?b = "db_instant et"
  let ?m = "col_metadata_id r"
  let ?ids = "sort (remdups (map col_metadata_id (filter (in_period ?a ?b) tbl)))"
  let ?L = "hd (sort_key (\<lambda>r. - col_start r) G)"
  define stats where "stats = compile_hourly_statistics_summary_mean_stmt tbl ?a ?b"
  define stats2 where "stats2 = summary_sum_query tbl ?a ?b"
  define g1 :: "int \<times> real option \<times> real option \<times> real option \<Rightarrow> StatisticData option \<Rightarrow> StatisticData"
    where "g1 = (\<lambda>x old. \<lparr>start = st, mean = fst (snd x), min_v = fst (snd (snd x)),
                 max_v = snd (snd (snd x)), last_reset = None, state = None, sum_v = None\<rparr>)"
  define g2 :: "int \<times> instant \<times> instant option \<times> real option \<times> real option \<times> nat
                  \<Rightarrow> StatisticData option \<Rightarrow> StatisticData"
    where "g2 = (\<lambda>x old. case old of
                Some e \<Rightarrow> e\<lparr>last_reset := process_timestamp (fst (snd (snd x))),
                            state := fst (snd (snd (snd x))),
                            sum_v := fst (snd (snd (snd (snd x))))\<rparr>
              | None \<Rightarrow> \<lparr>start = st, mean = None, min_v = None, max_v = None,
                          last_reset = process_timestamp (fst (snd (snd x))),
                          state = fst (snd (snd (snd x))),
                          sum_v = fst (snd (snd (snd (snd x))))\<rparr>)"
  define summary where
    "summary = fold (\<lambda>x acc. AList.update (fst x) (g1 x (map_of acc (fst x))) acc) stats []"
  have hs: "hourly_summary tbl st et
              = fold (\<lambda>x acc. AList.update (fst x) (g2 x (map_of acc (fst x))) acc) stats2 summary"
    unfolding hourly_summary_folds summary_def stats_def stats2_def g1_def g2_def ..
  have mid: "?m \<in> set ?ids" using r by auto
  let ?x1 = "(?m, sql_avg (map col_mean G), sql_min (map col_min G), sql_max (map col_max G))"
  let ?x2 = "(?m, col_start ?L, col_last_reset ?L, col_state ?L, col_sum ?L, 1::nat)"
  have x1: "?x1 \<in> set stats"
    unfolding stats_def compile_hourly_statistics_summary_mean_stmt_def Let_def G_def
    by (rule map_in[OF mid]) simp
  have d1: "distinct (map fst stats)"
    unfolding stats_def summary_mean_stmt_keys by simp
  have x2: "?x2 \<in> set stats2"
    unfolding stats2_def summary_sum_query_eq Let_def G_def
    by (rule map_in[OF mid]) simp
  have d2: "distinct (map fst stats2)"
    unfolding stats2_def summary_sum_query_eq by (simp add: comp_def Let_def)
  have s1: "map_of summary ?m = Some (g1 ?x1 None)"
    using fold_upd_at[OF d1 x1, of g1 "[]"] unfolding summary_def by simp
  have "map_of (hourly_summary tbl st et) ?m = Some (g2 ?x2 (map_of summary ?m))"
    using fold_upd_at[OF d2 x2, of g2 summary] unfolding hs by simp
  then show ?thesis unfolding s1 by (simp add: g1_def g2_def)
qed

lemma hourly_summary_keys:
  "fst ` set (hourly_summary tbl st et)
     = col_metadata_id ` set (filter (in_period (db_instant st) (db_instant et)) tbl)"
proof -
  have k1: "fst ` set (compile_hourly_statistics_summary_mean_stmt tbl (db_instant st) (db_instant et))
            = col_metadata_id ` set (filter (in_period (db_instant st) (db_instant et)) tbl)"
    using summary_mean_stmt_keys[of tbl "db_instant st" "db_instant et"]
    by (metis list.set_map set_remdups set_sort)
  have k2: "fst ` set (summary_sum_query tbl (db_instant st) (db_instant et))
            = col_metadata_id ` set (filter (in_period (db_instant st) (db_instant et)) tbl)"
    unfolding summary_sum_query_eq by (force simp: Let_def)
  show ?thesis
    unfolding hourly_summary_folds
    by (subst fold_upd_dom[where g = "\<lambda>x old. case old of Some e \<Rightarrow> _ x e | None \<Rightarrow> _ x"],
        subst fold_upd_dom[where g = "\<lambda>x old. _ x"]) (simp add: k1 k2)
qed


lemma db_instant_hour_end:
  "db_instant (dt_plus st (timedelta_hours 1)) = db_instant st + 3600000000"
  by (simp add: db_instant_def dt_plus_def timedelta_hours_def split: option.splits)

lemma compile_hourly_written:
  "\<exists>ids. length ids = length (hourly_summary (statistics_short_term (sdb s)) (replace_minute0 strt)
                              (dt_plus (replace_minute0 strt) (timedelta_hours 1)))
     \<and> compile_hourly_statistics now s strt =
       \<lparr>sdb = (sdb s)\<lparr>statistics := statistics (sdb s)
                   @ map (\<lambda>((mid, st), i). from_stats mid st i now)
                       (zip (hourly_summary (statistics_short_term (sdb s)) (replace_minute0 strt)
                              (dt_plus (replace_minute0 strt) (timedelta_hours 1))) ids)\<rparr>,
        trace = trace s
                   @ map (\<lambda>((mid, st), i). Add_row Statistics (from_stats mid st i now))
                       (zip (hourly_summary (statistics_short_term (sdb s)) (replace_minute0 strt)
                              (dt_plus (replace_minute0 strt) (timedelta_hours 1))) ids)\<rparr>"
  unfolding compile_hourly_statistics_def Let_def by (rule fold_add_rows)

lemma filter_series_map:
  "filter (\<lambda>x. col_metadata_id x = m) (map (\<lambda>((mid, st), i). from_stats mid st i now) xs)
   = map (\<lambda>((mid, st), i). from_stats mid st i now) (filter (\<lambda>((k, v), i). k = m) xs)"
  by (induction xs) (auto simp: from_stats_def)

lemma series_in_hour:
  "filter (\<lambda>x. col_metadata_id x = m) (filter (in_period a (a + 3600000000)) tbl)
   = filter (\<lambda>x. col_metadata_id x = m \<and> a \<le> col_start x \<and> col_start x < a + 3600000000) tbl"
  by (auto simp: in_period_def intro: filter_cong)

lemma hourly_row_of_series:
  assumes "r \<in> set (statistics_short_term (sdb s))"
    and "H = db_instant (replace_minute0 strt)"
    and "H \<le> col_start r" "col_start r < H + 3600000000"
    and "G = filter (\<lambda>x. col_metadata_id x = col_metadata_id r
                          \<and> H \<le> col_start x \<and> col_start x < H + 3600000000)
               (statistics_short_term (sdb s))"
  shows "\<exists>i. filter (\<lambda>x. col_metadata_id x = col_metadata_id r)
               (drop (length (statistics (sdb s)))
                  (statistics (sdb (compile_hourly_statistics now s strt))))
             = [from_stats (col_metadata_id r)
                  \<lparr>start = replace_minute0 strt, mean = sql_avg (map col_mean G),
                   min_v = sql_min (map col_min G), max_v = sql_max (map col_max G),
                   last_reset = process_timestamp
                                  (col_last_reset (hd (sort_key (\<lambda>r. - col_start r) G))),
                   state = col_state (hd (sort_key (\<lambda>r. - col_start r) G)),
                   sum_v = col_sum (hd (sort_key (\<lambda>r. - col_start r) G))\<rparr> i now]"
proof -
  let ?st = "replace_minute0 strt"
  let ?et = "dt_plus ?st (timedelta_hours 1)"
  let ?sm = "hourly_summary (statistics_short_term (sdb s)) ?st ?et"
  let ?stat = "\<lparr>start = replace_minute0 strt, mean = sql_avg (map col_mean G),
                   min_v = sql_min (map col_min G), max_v = sql_max (map col_max G),
                   last_reset = process_timestamp
                                  (col_last_reset (hd (sort_key (\<lambda>r. - col_start r) G))),
                   state = col_state (hd (sort_key (\<lambda>r. - col_start r) G)),
                   sum_v = col_sum (hd (sort_key (\<lambda>r. - col_start r) G))\<rparr>"
  have p: "in_period (db_instant ?st) (db_instant ?et) r"
    using assms(2-4) by (simp add: in_period_def db_instant_hour_end)
  have G: "G = filter (\<lambda>x. col_metadata_id x = col_metadata_id r)
                 (filter (in_period (db_instant ?st) (db_instant ?et))
                    (statistics_short_term (sdb s)))"
    unfolding assms(5) assms(2) db_instant_hour_end series_in_hour ..
  from compile_hourly_written[of s strt now] obtain ids where
    len: "length ids = length ?sm" and
    eq: "statistics (sdb (compile_hourly_statistics now s strt)) =
           statistics (sdb s) @ map (\<lambda>((mid, st), i). from_stats mid st i now) (zip ?sm ids)"
    by (metis (no_types, lifting) db.select_convs(2) db.surjective db.update_convs(2)
        session.select_convs(1))
  have at: "map_of ?sm (col_metadata_id r) = Some ?stat"
    unfolding G by (rule hourly_summary_at[OF assms(1) p])
  from zip_filter_key[OF hourly_summary_distinct at len] obtain i where
    "filter (\<lambda>((k, v), i). k = col_metadata_id r) (zip ?sm ids) = [((col_metadata_id r, ?stat), i)]"
    by blast
  then show ?thesis
    unfolding eq by (intro exI[of _ i]) (simp add: filter_series_map)
qed

lemma sql_avg_eq:
  "sql_avg vs = (if non_null vs = [] then None
                 else Some (sum_list (non_null vs) / real (length (non_null vs))))"
  by (simp add: sql_avg_def split: list.splits)

lemma sql_min_eq:
  "sql_min vs = (if non_null vs = [] then None else Some (Min (set (non_null vs))))"
  by (simp add: sql_min_def Min.set_eq_fold[symmetric] split: list.splits)

lemma sql_max_eq:
  "sql_max vs = (if non_null vs = [] then None else Some (Max (set (non_null vs))))"
  by (simp add: sql_max_def Max.set_eq_fold[symmetric] split: list.splits)

text \<open>
  C1. For a series with a short-term row in the period \<open>[H, H + 1 hour)\<close>, where \<open>H\<close> is the
  start passed to \<open>compile_hourly_statistics\<close> with its minute set to zero, the rollup
  writes exactly one row for the series: at \<open>H\<close>, with the arithmetic mean of the
  short-term means that are present, the least of the short-term minima and the greatest of
  the short-term maxima that are present (each absent when none is present).
\<close>

theorem hourly_rollup_mean_min_max:
  assumes "r \<in> set (statistics_short_term (sdb s))"
    and "H = db_instant (replace_minute0 strt)"
    and "H \<le> col_start r" "col_start r < H + 3600000000"
  shows "\<exists>h. filter (\<lambda>x. col_metadata_id x = col_metadata_id r)
               (drop (length (statistics (sdb s)))
                  (statistics (sdb (compile_hourly_statistics now s strt)))) = [h]
     \<and> col_start h = H
     \<and> (let g = filter (\<lambda>x. col_metadata_id x = col_metadata_id r
                            \<and> H \<le> col_start x \<and> col_start x < H + 3600000000)
                    (statistics_short_term (sdb s));
            means = non_null (map col_mean g);
            mins = non_null (map col_min g);
            maxs = non_null (map col_max g)
        in col_mean h = (if means = [] then None
                         else Some (sum_list means / real (length means)))
         \<and> col_min h = (if mins = [] then None else Some (Min (set mins)))
         \<and> col_max h = (if maxs = [] then None else Some (Max (set maxs))))"
proof -
  define G where "G = filter (\<lambda>x. col_metadata_id x = col_metadata_id r
                            \<and> H \<le> col_start x \<and> col_start x < H + 3600000000)
                    (statistics_short_term (sdb s))"
  from hourly_row_of_series[OF assms G_def, of now] obtain i where
    e: "filter (\<lambda>x. col_metadata_id x = col_metadata_id r)
               (drop (length (statistics (sdb s)))
                  (statistics (sdb (compile_hourly_statistics now s strt))))
     = [from_stats (col_metadata_id r)
          \<lparr>start = replace_minute0 strt, mean = sql_avg (map col_mean G),
           min_v = sql_min (map col_min G), max_v = sql_max (map col_max G),
           last_reset = process_timestamp
                          (col_last_reset (hd (sort_key (\<lambda>r. - col_start r) G))),
           state = col_state (hd (sort_key (\<lambda>r. - col_start r) G)),
           sum_v = col_sum (hd (sort_key (\<lambda>r. - col_start r) G))\<rparr> i now]"
    by blast
  show ?thesis
    unfolding e G_def[symmetric]
    by (simp add: from_stats_def Let_def sql_avg_eq sql_min_eq sql_max_eq assms(2))
qed

lemma ex_hour_series:
  "filter (\<lambda>x. col_metadata_id x = 1 \<and> 0 \<le> col_start x \<and> col_start x < 3600000000)
     (statistics_short_term (sdb (new_session ex_db_hour))) = ex_hour_rows"
  by code_simp

lemma ex_hour_values:
  "non_null (map col_mean ex_hour_rows) = [1, 2, 3, 4, 5, 6, 7, 8, 9, 10, 11, 12]"
  "non_null (map col_min ex_hour_rows) = [1, 2, 3, 4, 5, 6, 7, 8, 9, 10, 11, 12]"
  "non_null (map col_max ex_hour_rows) = [1, 2, 3, 4, 5, 6, 7, 8, 9, 10, 11, 12]"
  by code_simp+

text \<open>The means 1 to 12 of one hour give the hourly mean 6.5, minimum 1 and maximum 12.\<close>

theorem hourly_rollup_mean_min_max_witness:
  "ex_row 12 1 3300000000 (Some 12) (Some 120)
     \<in> set (statistics_short_term (sdb (new_session ex_db_hour)))
   \<and> 0 = db_instant (replace_minute0 (utc_datetime 3300000000))
   \<and> (\<exists>h. filter (\<lambda>x. col_metadata_id x = 1)
               (drop (length (statistics (sdb (new_session ex_db_hour))))
                  (statistics (sdb (compile_hourly_statistics 7 (new_session ex_db_hour)
                                      (utc_datetime 3300000000))))) = [h]
          \<and> col_start h = 0 \<and> col_mean h = Some 6.5 \<and> col_min h = Some 1
          \<and> col_max h = Some 12)"
proof -
  have h1: "ex_row 12 1 3300000000 (Some 12) (Some 120)
              \<in> set (statistics_short_term (sdb (new_session ex_db_hour)))"
    by (simp add: new_session_def ex_db_hour_def ex_hour_rows_def)
  have h2: "0 = db_instant (replace_minute0 (utc_datetime 3300000000))"
    by (simp add: db_instant_def replace_minute0_def utc_datetime_def dt_minute_def)
  have h3: "0 \<le> col_start (ex_row 12 1 3300000000 (Some 12) (Some 120))"
    and h4: "col_start (ex_row 12 1 3300000000 (Some 12) (Some 120)) < 0 + 3600000000"
    by (simp_all add: ex_row_def)
  have m: "col_metadata_id (ex_row 12 1 3300000000 (Some 12) (Some 120)) = 1"
    by (simp add: ex_row_def)
  from hourly_rollup_mean_min_max[OF h1 h2 h3 h4, of 7]
  show ?thesis
    using h1 h2 by (simp add: m ex_hour_series ex_hour_values Let_def)
qed


lemma non_null_all_None: "list_all (\<lambda>v. v = None) vs \<Longrightarrow> non_null vs = []"
  by (induction vs) auto

lemma last_reset_round_trip: "map_option db_instant (process_timestamp t) = t"
  by (cases t) (simp_all add: process_timestamp_def utc_datetime_def db_instant_def)

text \<open>
  C2. For a series with a short-term row \<open>r\<close> in the period whose \<open>start\<close> is later than
  that of every other row of the series in the period, the one row the rollup writes for the
  series takes \<open>sum\<close>, \<open>state\<close> and \<open>last_reset\<close> from \<open>r\<close>; and when no row of the series in
  the period has a mean, minimum or maximum, the row is still written, with all three absent.
\<close>

theorem hourly_rollup_sum_from_latest:
  assumes "r \<in> set (statistics_short_term (sdb s))"
    and "H = db_instant (replace_minute0 strt)"
    and "H \<le> col_start r" "col_start r < H + 3600000000"
    and latest: "\<forall>x \<in> set (statistics_short_term (sdb s)).
                   col_metadata_id x = col_metadata_id r \<and> H \<le> col_start x
                   \<and> col_start x < H + 3600000000 \<and> x \<noteq> r \<longrightarrow> col_start x < col_start r"
  shows "\<exists>h. filter (\<lambda>x. col_metadata_id x = col_metadata_id r)
               (drop (length (statistics (sdb s)))
                  (statistics (sdb (compile_hourly_statistics now s strt)))) = [h]
     \<and> col_start h = H
     \<and> col_sum h = col_sum r \<and> col_state h = col_state r
     \<and> col_last_reset h = col_last_reset r
     \<and> (list_all (\<lambda>x. col_mean x = None \<and> col_min x = None \<and> col_max x = None)
           (filter (\<lambda>x. col_metadata_id x = col_metadata_id r
                         \<and> H \<le> col_start x \<and> col_start x < H + 3600000000)
              (statistics_short_term (sdb s)))
         \<longrightarrow> col_mean h = None \<and> col_min h = None \<and> col_max h = None)"
proof -
  define G where "G = filter (\<lambda>x. col_metadata_id x = col_metadata_id r
                            \<and> H \<le> col_start x \<and> col_start x < H + 3600000000)
                    (statistics_short_term (sdb s))"
  have rG: "r \<in> set G" using assms(1,3,4) by (simp add: G_def)
  have "\<forall>x \<in> set G. x \<noteq> r \<longrightarrow> col_start x < col_start r"
    using latest by (auto simp: G_def)
  with rG have L: "hd (sort_key (\<lambda>r. - col_start r) G) = r"
    by (rule hd_sort_key_latest)
  from hourly_row_of_series[OF assms(1-4) G_def, of now] obtain i where
    e: "filter (\<lambda>x. col_metadata_id x = col_metadata_id r)
               (drop (length (statistics (sdb s)))
                  (statistics (sdb (compile_hourly_statistics now s strt))))
     = [from_stats (col_metadata_id r)
          \<lparr>start = replace_minute0 strt, mean = sql_avg (map col_mean G),
           min_v = sql_min (map col_min G), max_v = sql_max (map col_max G),
           last_reset = process_timestamp (col_last_reset r),
           state = col_state r, sum_v = col_sum r\<rparr> i now]"
    unfolding L by blast
  have none: "sql_avg (map col_mean G) = None \<and> sql_min (map col_min G) = None
              \<and> sql_max (map col_max G) = None"
    if "list_all (\<lambda>x. col_mean x = None \<and> col_min x = None \<and> col_max x = None) G"
  proof -
    from that have "list_all (\<lambda>v. v = None) (map col_mean G)"
      "list_all (\<lambda>v. v = None) (map col_min G)" "list_all (\<lambda>v. v = None) (map col_max G)"
      by (simp_all add: list_all_iff)
    then show ?thesis
      by (simp add: sql_avg_eq sql_min_eq sql_max_eq non_null_all_None)
  qed
  show ?thesis
    unfolding e G_def[symmetric] using none
    by (simp add: from_stats_def last_reset_round_trip assms(2))
qed

lemma ex_sum_series:
  "filter (\<lambda>x. col_metadata_id x = 3 \<and> 0 \<le> col_start x \<and> col_start x < 3600000000)
     (statistics_short_term (sdb (new_session ex_db_sum))) = ex_sum_rows"
  by code_simp

theorem hourly_rollup_sum_from_latest_witness:
  "ex_sum_latest \<in> set (statistics_short_term (sdb (new_session ex_db_sum)))
   \<and> 0 = db_instant (replace_minute0 (utc_datetime 3300000000))
   \<and> list_all (\<lambda>x. col_mean x = None \<and> col_min x = None \<and> col_max x = None) ex_sum_rows
   \<and> (\<exists>h. filter (\<lambda>x. col_metadata_id x = 3)
               (drop (length (statistics (sdb (new_session ex_db_sum))))
                  (statistics (sdb (compile_hourly_statistics 7 (new_session ex_db_sum)
                                      (utc_datetime 3300000000))))) = [h]
          \<and> col_start h = 0 \<and> col_sum h = Some 7 \<and> col_state h = Some 2
          \<and> col_last_reset h = Some 1800000000
          \<and> col_mean h = None \<and> col_min h = None \<and> col_max h = None)"
proof -
  have h1: "ex_sum_latest \<in> set (statistics_short_term (sdb (new_session ex_db_sum)))"
    by (simp add: new_session_def ex_db_sum_def ex_sum_rows_def)
  have h2: "0 = db_instant (replace_minute0 (utc_datetime 3300000000))"
    by (simp add: db_instant_def replace_minute0_def utc_datetime_def dt_minute_def)
  have h3: "0 \<le> col_start ex_sum_latest" and h4: "col_start ex_sum_latest < 0 + 3600000000"
    by (simp_all add: ex_sum_latest_def)
  have h5: "\<forall>x \<in> set (statistics_short_term (sdb (new_session ex_db_sum))).
              col_metadata_id x = col_metadata_id ex_sum_latest \<and> 0 \<le> col_start x
              \<and> col_start x < 0 + 3600000000 \<and> x \<noteq> ex_sum_latest
              \<longrightarrow> col_start x < col_start ex_sum_latest"
    by (simp add: new_session_def ex_db_sum_def ex_sum_rows_def ex_sum_latest_def)
  have h6: "list_all (\<lambda>x. col_mean x = None \<and> col_min x = None \<and> col_max x = None) ex_sum_rows"
    by (simp add: ex_sum_rows_def ex_sum_latest_def)
  have m: "col_metadata_id ex_sum_latest = 3" "col_sum ex_sum_latest = Some 7"
    "col_state ex_sum_latest = Some 2" "col_last_reset ex_sum_latest = Some 1800000000"
    by (simp_all add: ex_sum_latest_def)
  from hourly_rollup_sum_from_latest[OF h1 h2 h3 h4 h5, of 7]
  show ?thesis
    using h1 h2 h6 by (simp add: m ex_sum_series)
qed

subsection \<open>Compilation tick\<close>









theorem compile_statistics_already_compiled_witness:
  "db_instant (as_utc (\<lambda>w. 0) (utc_datetime 3300000000)) \<in> set (statistics_runs ex_db_hour)
   \<and> compile_statistics (\<lambda>w. 0) 0 [Some ex_platform] ex_db_hour (utc_datetime 3300000000)
       = (\<lparr>sdb = ex_db_hour, trace = []\<rparr>, True)"
proof -
  have h: "db_instant (as_utc (\<lambda>w. 0) (utc_datetime 3300000000)) \<in> set (statistics_runs ex_db_hour)"
    by code_simp
  from compile_statistics_already_compiled[OF h, where platforms = "[Some ex_platform]" and now = 0]
  show ?thesis using h
    by (cases "compile_statistics (\<lambda>w. 0) 0 [Some ex_platform] ex_db_hour (utc_datetime 3300000000)")
       auto
qed

subsection \<open>Unit Conversion Layer\<close>

lemma to_display_eq:
  "to_display cv units unit v =
     (if unit = Some PRESSURE_PA
      then map_option (\<lambda>x. pressure_convert cv x PRESSURE_PA (pressure_unit units)) v
      else if unit = Some TEMP_CELSIUS
      then map_option (\<lambda>x. temperature_convert cv x TEMP_CELSIUS (temperature_unit units)) v
      else if unit = Some VOLUME_CUBIC_METERS
      then map_option (\<lambda>x. volume_convert cv x VOLUME_CUBIC_METERS
                              (if is_metric units then VOLUME_CUBIC_METERS else VOLUME_CUBIC_FEET)) v
      else v)"
  by (cases unit; cases v)
     (simp_all add: to_display_def dict_get_def STATISTIC_UNIT_TO_DISPLAY_UNIT_CONVERSIONS_def
        configured_unit_def[of "Some VOLUME_CUBIC_METERS"] units_distinct)

text \<open>
  C7, as amended. Converting a value to the display unit and back gives: for a volume in
  cubic metres under a metric unit system, what the volume converter returns for equal
  units, which is the value itself; under a unit system that is not metric, the value taken
  to cubic feet and back by the volume converter, which with the repository's factors is
  \<open>x * 35.3146667 * 0.0283168466\<close> and lies within \<open>1e-9\<close> of \<open>x\<close> only for
  \<open>\<bar>x\<bar> * 16298589 \<le> 50000000\<close> (about 3.07); for a pressure or a temperature, the value
  in the display unit, because nothing converts pressures and temperatures back, so the
  value itself when the unit system displays Pa or degrees Celsius. A unit other than Pa,
  degrees Celsius, cubic metres and cubic feet (or no unit) passes through both directions
  unchanged, and an absent value stays absent. The unit system's pressure and temperature
  units are not cubic feet.
\<close>

theorem unit_round_trip:
  assumes "pressure_unit units \<noteq> VOLUME_CUBIC_FEET" "temperature_unit units \<noteq> VOLUME_CUBIC_FEET"
  shows "map_option (to_normalized cv units (Some VOLUME_CUBIC_METERS))
           (to_display cv units (Some VOLUME_CUBIC_METERS) (Some x))
         = Some (if is_metric units
                 then volume_convert cv x VOLUME_CUBIC_METERS VOLUME_CUBIC_METERS
                 else volume_convert cv (volume_convert cv x VOLUME_CUBIC_METERS VOLUME_CUBIC_FEET)
                        VOLUME_CUBIC_FEET VOLUME_CUBIC_METERS)
     \<and> map_option (to_normalized cv units (Some PRESSURE_PA))
           (to_display cv units (Some PRESSURE_PA) (Some x))
         = Some (pressure_convert cv x PRESSURE_PA (pressure_unit units))
     \<and> map_option (to_normalized cv units (Some TEMP_CELSIUS))
           (to_display cv units (Some TEMP_CELSIUS) (Some x))
         = Some (temperature_convert cv x TEMP_CELSIUS (temperature_unit units))
     \<and> map_option (to_normalized ex_converters units (Some VOLUME_CUBIC_METERS))
           (to_display ex_converters units (Some VOLUME_CUBIC_METERS) (Some x))
         = Some (if is_metric units then x else x * 35.3146667 * 0.0283168466)
     \<and> (\<bar>the (map_option (to_normalized ex_converters units (Some VOLUME_CUBIC_METERS))
                (to_display ex_converters units (Some VOLUME_CUBIC_METERS) (Some x))) - x\<bar>
          \<le> 1 / 10 ^ 9
        \<longleftrightarrow> is_metric units \<or> \<bar>x\<bar> * 16298589 \<le> 50000000)
     \<and> (pressure_unit units = PRESSURE_PA
          \<longrightarrow> map_option (to_normalized ex_converters units (Some PRESSURE_PA))
                (to_display ex_converters units (Some PRESSURE_PA) (Some x)) = Some x)
     \<and> (temperature_unit units = TEMP_CELSIUS
          \<longrightarrow> map_option (to_normalized ex_converters units (Some TEMP_CELSIUS))
                (to_display ex_converters units (Some TEMP_CELSIUS) (Some x)) = Some x)
     \<and> (unit \<noteq> Some PRESSURE_PA \<and> unit \<noteq> Some TEMP_CELSIUS \<and> unit \<noteq> Some VOLUME_CUBIC_METERS
          \<and> unit \<noteq> Some VOLUME_CUBIC_FEET
          \<longrightarrow> to_display cv units unit v = v \<and> to_normalized cv units unit x = x)
     \<and> to_display cv units unit None = None"
proof -
  have general: "map_option (to_normalized c units (Some VOLUME_CUBIC_METERS))
           (to_display c units (Some VOLUME_CUBIC_METERS) (Some x))
         = Some (if is_metric units
                 then volume_convert c x VOLUME_CUBIC_METERS VOLUME_CUBIC_METERS
                 else volume_convert c (volume_convert c x VOLUME_CUBIC_METERS VOLUME_CUBIC_FEET)
                        VOLUME_CUBIC_FEET VOLUME_CUBIC_METERS)"
    "map_option (to_normalized c units (Some PRESSURE_PA))
           (to_display c units (Some PRESSURE_PA) (Some x))
         = Some (pressure_convert c x PRESSURE_PA (pressure_unit units))"
    "map_option (to_normalized c units (Some TEMP_CELSIUS))
           (to_display c units (Some TEMP_CELSIUS) (Some x))
         = Some (temperature_convert c x TEMP_CELSIUS (temperature_unit units))" for c
    using assms
    by (simp_all add: to_display_eq to_normalized_eq configured_unit_def units_distinct)
  have vol: "map_option (to_normalized ex_converters units (Some VOLUME_CUBIC_METERS))
           (to_display ex_converters units (Some VOLUME_CUBIC_METERS) (Some x))
         = Some (if is_metric units then x else x * 35.3146667 * 0.0283168466)"
    unfolding general(1) by (simp add: ex_converters_def units_distinct)
  have "\<bar>x * 35.3146667 * 0.0283168466 - x\<bar> = \<bar>x\<bar> * (16298589 / 50000000000000000)"
  proof -
    have "x * 35.3146667 * 0.0283168466 - x = x * (- (16298589 / 50000000000000000))"
      by (simp add: algebra_simps)
    then show ?thesis by (simp add: abs_mult)
  qed
  then have tol: "\<bar>x * 35.3146667 * 0.0283168466 - x\<bar> \<le> 1 / 10 ^ 9
                  \<longleftrightarrow> \<bar>x\<bar> * 16298589 \<le> 50000000"
    by (simp add: field_simps)
  have pr: "pressure_unit units = PRESSURE_PA
          \<longrightarrow> map_option (to_normalized ex_converters units (Some PRESSURE_PA))
                (to_display ex_converters units (Some PRESSURE_PA) (Some x)) = Some x"
    unfolding general(2) by (simp add: ex_converters_def)
  have te: "temperature_unit units = TEMP_CELSIUS
          \<longrightarrow> map_option (to_normalized ex_converters units (Some TEMP_CELSIUS))
                (to_display ex_converters units (Some TEMP_CELSIUS) (Some x)) = Some x"
    unfolding general(3) by (simp add: ex_converters_def)
  have other: "unit \<noteq> Some PRESSURE_PA \<and> unit \<noteq> Some TEMP_CELSIUS
          \<and> unit \<noteq> Some VOLUME_CUBIC_METERS \<and> unit \<noteq> Some VOLUME_CUBIC_FEET
          \<longrightarrow> to_display cv units unit v = v \<and> to_normalized cv units unit x = x"
    by (simp add: to_display_eq to_normalized_eq configured_unit_def)
  have none: "to_display cv units unit None = None"
    by (simp add: to_display_eq)
  show ?thesis
    unfolding vol using general[of cv] vol tol pr te other none by simp
qed

text \<open>
  The claim as stated fails for temperature under a unit system that displays Fahrenheit:
  0 degrees Celsius is displayed as 32, and 32 converted back is 32.
\<close>

theorem unit_round_trip_temperature_counterexample:
  "to_display ex_converters ex_imperial (Some TEMP_CELSIUS) (Some 0) = Some 32
   \<and> to_normalized ex_converters ex_imperial (Some TEMP_CELSIUS) 32 = 32
   \<and> \<not> \<bar>to_normalized ex_converters ex_imperial (Some TEMP_CELSIUS) 32 - 0\<bar> \<le> 1 / 10 ^ 9"
  by (simp add: to_display_eq to_normalized_eq configured_unit_def units_distinct
      ex_converters_def ex_imperial_def TEMP_CELSIUS_def VOLUME_CUBIC_FEET_def PRESSURE_PA_def
      VOLUME_CUBIC_METERS_def)

text \<open>It also fails for a volume under a unit system that displays cubic feet: 1000 cubic
  metres are displayed as 35314.6667 cubic feet, which come back as 999.99999967402822.\<close>

lemma unit_round_trip_volume_tolerance:
  "to_display ex_converters ex_imperial (Some VOLUME_CUBIC_METERS) (Some 1000) = Some 35314.6667
   \<and> to_normalized ex_converters ex_imperial (Some VOLUME_CUBIC_METERS) 35314.6667
       = 999.99999967402822
   \<and> \<not> \<bar>to_normalized ex_converters ex_imperial (Some VOLUME_CUBIC_METERS) 35314.6667 - 1000\<bar>
         \<le> 1 / 10 ^ 9"
  by (simp add: to_display_eq to_normalized_eq configured_unit_def units_distinct
      ex_converters_def ex_imperial_def)

text \<open>A series whose own unit is cubic feet is outside the table of display conversions, yet
  a value given for it is converted to cubic metres under a unit system that is not metric.\<close>

lemma cubic_feet_series_converted:
  "to_display ex_converters ex_imperial (Some VOLUME_CUBIC_FEET) (Some 100) = Some 100
   \<and> to_normalized ex_converters ex_imperial (Some VOLUME_CUBIC_FEET) 100 = 2.83168466"
  by (simp add: to_display_eq to_normalized_eq configured_unit_def units_distinct
      ex_converters_def ex_imperial_def)

theorem unit_round_trip_witness:
  "pressure_unit ex_imperial \<noteq> VOLUME_CUBIC_FEET \<and> temperature_unit ex_imperial \<noteq> VOLUME_CUBIC_FEET
   \<and> pressure_unit ex_metric \<noteq> VOLUME_CUBIC_FEET \<and> temperature_unit ex_metric \<noteq> VOLUME_CUBIC_FEET
   \<and> map_option (to_normalized ex_converters ex_imperial (Some VOLUME_CUBIC_METERS))
        (to_display ex_converters ex_imperial (Some VOLUME_CUBIC_METERS) (Some 2))
       = Some 1.99999999934805644
   \<and> \<bar>1.99999999934805644 - 2\<bar> \<le> (1 / 10 ^ 9 :: real)
   \<and> map_option (to_normalized ex_converters ex_metric (Some VOLUME_CUBIC_METERS))
        (to_display ex_converters ex_metric (Some VOLUME_CUBIC_METERS) (Some 1000)) = Some 1000
   \<and> map_option (to_normalized ex_converters ex_metric (Some PRESSURE_PA))
        (to_display ex_converters ex_metric (Some PRESSURE_PA) (Some 2)) = Some 2
   \<and> map_option (to_normalized ex_converters ex_imperial (Some PRESSURE_PA))
        (to_display ex_converters ex_imperial (Some PRESSURE_PA) (Some 6894.757)) = Some 1
   \<and> map_option (to_normalized ex_converters ex_metric (Some TEMP_CELSIUS))
        (to_display ex_converters ex_metric (Some TEMP_CELSIUS) (Some 2)) = Some 2
   \<and> to_display ex_converters ex_imperial (Some ''kWh'') (Some 2) = Some 2
   \<and> to_normalized ex_converters ex_imperial (Some ''kWh'') 2 = 2"
proof -
  have w12: "pressure_unit ex_imperial \<noteq> VOLUME_CUBIC_FEET"
    "temperature_unit ex_imperial \<noteq> VOLUME_CUBIC_FEET"
    by (simp_all add: ex_imperial_def VOLUME_CUBIC_FEET_def)
  have w34: "pressure_unit ex_metric \<noteq> VOLUME_CUBIC_FEET"
    "temperature_unit ex_metric \<noteq> VOLUME_CUBIC_FEET"
    by (simp_all add: ex_metric_def units_distinct)
  note w = w12 w34
  have k: "Some ''kWh'' \<noteq> Some PRESSURE_PA \<and> Some ''kWh'' \<noteq> Some TEMP_CELSIUS
           \<and> Some ''kWh'' \<noteq> Some VOLUME_CUBIC_METERS \<and> Some ''kWh'' \<noteq> Some VOLUME_CUBIC_FEET"
    by (simp add: PRESSURE_PA_def TEMP_CELSIUS_def VOLUME_CUBIC_METERS_def VOLUME_CUBIC_FEET_def)
  have u: "pressure_unit ex_metric = PRESSURE_PA" "temperature_unit ex_metric = TEMP_CELSIUS"
    "is_metric ex_metric" "\<not> is_metric ex_imperial" "pressure_unit ex_imperial = ''psi''"
    by (simp_all add: ex_metric_def ex_imperial_def)
  have c: "pressure_convert ex_converters 6894.757 PRESSURE_PA ''psi'' = 1"
    by (simp add: ex_converters_def PRESSURE_PA_def)
  from unit_round_trip[OF w(1,2), of ex_converters 2 "Some ''kWh''" "Some 2"]
       unit_round_trip[OF w(1,2), of ex_converters "6894.757" "Some ''kWh''" "Some 2"]
       unit_round_trip[OF w(3,4), of ex_converters 2 "Some ''kWh''" "Some 2"]
       unit_round_trip[OF w(3,4), of ex_converters 1000 "Some ''kWh''" "Some 2"]
  show ?thesis using w k u c by simp
qed

subsection \<open>External Statistics Importer\<close>

lemma as_utc_aware:
  "tzoff d = Some off \<Longrightarrow> as_utc tz d = utc_datetime (db_instant d)"
  by (simp add: as_utc_def utc_datetime_def db_instant_def)

lemma check_samples_ok:
  "list_all sample_ok samples \<Longrightarrow>
   check_samples tz samples
     = Inr (map (\<lambda>st. st\<lparr>start := utc_datetime (db_instant (start st))\<rparr>) samples)"
  by (induction samples) (auto simp: sample_ok_def Let_def as_utc_aware)

lemma check_samples_bad:
  "\<not> list_all sample_ok samples \<Longrightarrow>
   check_samples tz samples = Inl (HomeAssistantError ''Naive timestamp'')
   \<or> check_samples tz samples = Inl (HomeAssistantError ''Invalid timestamp'')"
  by (induction samples) (auto simp: sample_ok_def Let_def split: sum.splits)

lemma valid_statistic_id_split:
  assumes "valid_statistic_id sid"
  shows "\<exists>object_id. split_statistic_id sid = [takeWhile (\<lambda>c. c \<noteq> CHR '':'') sid, object_id]"
proof -
  define line where "line = (if sid \<noteq> [] \<and> last sid = CHR 0x0A then butlast sid else sid)"
  define rest where "rest = dropWhile (\<lambda>c. c \<noteq> CHR '':'') line"
  from assms have "case rest of [] \<Rightarrow> False | colon # object_id \<Rightarrow> is_slug object_id"
    unfolding valid_statistic_id_def Let_def line_def[symmetric] rest_def[symmetric] by simp
  then have "rest \<noteq> []" by (cases rest) simp_all
  then have "CHR '':'' \<in> set line"
    unfolding rest_def by (auto simp: dropWhile_eq_Nil_conv)
  then have "CHR '':'' \<in> set sid"
    unfolding line_def by (auto split: if_splits dest: in_set_butlastD)
  then show ?thesis by (simp add: split_statistic_id_def)
qed


lemma db_instant_utc: "db_instant (utc_datetime t) = t"
  by (simp add: db_instant_def utc_datetime_def)

lemma has_row_insert:
  "has_row mid (db_instant (start st)) (insert_statistics now s Statistics mid st)"
  by (simp add: has_row_def insert_statistics_def session_add_row_def Let_def
      set_table_rows_def table_rows_def from_stats_def)

lemma has_row_insert_keeps:
  "has_row m t s \<Longrightarrow> has_row m t (insert_statistics now s Statistics mid st)"
  by (simp add: has_row_def insert_statistics_def session_add_row_def Let_def
      set_table_rows_def table_rows_def)

lemma has_row_update_keeps:
  assumes "has_row m t s"
  shows "has_row m t (update_statistics s Statistics i st)"
proof -
  let ?f = "\<lambda>r. if col_id r = i
                 then r\<lparr>col_mean := mean st, col_min := min_v st, col_max := max_v st,
                        col_last_reset := map_option db_instant (last_reset st),
                        col_state := state st, col_sum := sum_v st\<rparr>
                 else r"
  from assms obtain row where row: "row \<in> set (statistics (sdb s))"
    "col_metadata_id row = m" "col_start row = t"
    by (auto simp: has_row_def list_ex_iff)
  have st: "statistics (sdb (update_statistics s Statistics i st)) = map ?f (statistics (sdb s))"
    by (simp add: update_statistics_def set_table_rows_def table_rows_def)
  have "?f row \<in> set (map ?f (statistics (sdb s)))" by (rule map_in[OF row(1) refl])
  moreover have "col_metadata_id (?f row) = m \<and> col_start (?f row) = t" using row by simp
  ultimately show ?thesis unfolding has_row_def list_ex_iff st by blast
qed

lemma statistics_exists_has_row:
  "statistics_exists s Statistics mid strt = Some i \<Longrightarrow> has_row mid (db_instant strt) s"
  by (auto simp: statistics_exists_def has_row_def table_rows_def list_ex_iff filter_eq_Cons_iff
      split: list.splits)

lemma import_sample_has_row:
  "has_row mid (db_instant (start st)) (import_sample now mid st s)"
  by (auto simp: import_sample_def has_row_insert split: option.splits
      intro: has_row_update_keeps statistics_exists_has_row)

lemma import_sample_keeps:
  "has_row m t s \<Longrightarrow> has_row m t (import_sample now mid st s)"
  by (auto simp: import_sample_def split: option.splits
      intro: has_row_update_keeps has_row_insert_keeps)

lemma fold_import_keeps:
  "has_row m t s \<Longrightarrow> has_row m t (fold (import_sample now mid) samples s)"
  by (induction samples arbitrary: s) (auto intro: import_sample_keeps)

lemma fold_import_has_rows:
  "list_all (\<lambda>st. has_row mid (db_instant (start st)) (fold (import_sample now mid) samples s))
     samples"
proof (induction samples arbitrary: s)
  case Nil
  show ?case by simp
next
  case (Cons x xs)
  have "has_row mid (db_instant (start x)) (fold (import_sample now mid) xs (import_sample now mid x s))"
    by (rule fold_import_keeps[OF import_sample_has_row])
  with Cons.IH[of "import_sample now mid x s"] show ?case by simp
qed

lemma add_external_statistics_rows:
  "\<exists>mid. list_all (\<lambda>st. has_row mid (db_instant (start st))
                          (fst (add_external_statistics now d md samples))) samples"
  unfolding add_external_statistics_def Let_def case_prod_beta fst_conv
  by (rule exI) (rule fold_import_has_rows)

text \<open>
  C10. A submission with a valid statistic id, a non-empty source equal to the part of the
  id before the colon, and samples whose \<open>start\<close> is timezone-aware with minute, second and
  microsecond zero is enqueued once, each \<open>start\<close> replaced by the same instant in UTC; the
  importer run on the enqueued job leaves, for every sample, a long-term row of the series
  whose \<open>start\<close> is that instant, whatever offset the caller used. Every other submission
  raises and leaves the queue as it was: an invalid id raises "Invalid statistic_id", a
  source that is empty or differs raises "Invalid source", a naive or misaligned \<open>start\<close>
  raises "Naive timestamp" or "Invalid timestamp".
\<close>

theorem async_add_external_statistics_utc:
  "(valid_statistic_id (statistic_id md) \<and> source md \<noteq> []
      \<and> source md = takeWhile (\<lambda>c. c \<noteq> CHR '':'') (statistic_id md)
      \<and> list_all sample_ok samples
    \<longrightarrow> async_add_external_statistics tz queue md samples
          = (queue @ [(md, map (\<lambda>st. st\<lparr>start := utc_datetime (db_instant (start st))\<rparr>)
                             samples)], None)
        \<and> (\<exists>mid. list_all (\<lambda>st. has_row mid (db_instant (start st))
               (fst (add_external_statistics now d md
                       (map (\<lambda>st. st\<lparr>start := utc_datetime (db_instant (start st))\<rparr>)
                          samples)))) samples))
   \<and> (\<not> valid_statistic_id (statistic_id md)
       \<longrightarrow> async_add_external_statistics tz queue md samples
             = (queue, Some (HomeAssistantError ''Invalid statistic_id'')))
   \<and> (valid_statistic_id (statistic_id md)
       \<and> (source md = [] \<or> source md \<noteq> takeWhile (\<lambda>c. c \<noteq> CHR '':'') (statistic_id md))
       \<longrightarrow> async_add_external_statistics tz queue md samples
             = (queue, Some (HomeAssistantError ''Invalid source'')))
   \<and> (valid_statistic_id (statistic_id md) \<and> source md \<noteq> []
       \<and> source md = takeWhile (\<lambda>c. c \<noteq> CHR '':'') (statistic_id md)
       \<and> \<not> list_all sample_ok samples
       \<longrightarrow> async_add_external_statistics tz queue md samples
             = (queue, Some (HomeAssistantError ''Naive timestamp''))
           \<or> async_add_external_statistics tz queue md samples
             = (queue, Some (HomeAssistantError ''Invalid timestamp'')))"
proof (cases "valid_statistic_id (statistic_id md)")
  case False
  then show ?thesis by (simp add: async_add_external_statistics_def)
next
  case True
  from valid_statistic_id_split[OF True] obtain object_id where
    sp: "split_statistic_id (statistic_id md)
           = [takeWhile (\<lambda>c. c \<noteq> CHR '':'') (statistic_id md), object_id]" by blast
  show ?thesis
  proof (cases "source md = [] \<or> source md \<noteq> takeWhile (\<lambda>c. c \<noteq> CHR '':'') (statistic_id md)")
    case bad: True
    then show ?thesis using True by (auto simp: async_add_external_statistics_def sp)
  next
    case ok: False
    show ?thesis
    proof (cases "list_all sample_ok samples")
      case all: True
      let ?n = "map (\<lambda>st. st\<lparr>start := utc_datetime (db_instant (start st))\<rparr>) samples"
      from add_external_statistics_rows[of now d md ?n] obtain mid where
        "list_all (\<lambda>st. has_row mid (db_instant (start st))
                          (fst (add_external_statistics now d md ?n))) ?n" by blast
      then have "list_all (\<lambda>st. has_row mid (db_instant (start st))
                          (fst (add_external_statistics now d md ?n))) samples"
        by (simp add: list_all_iff db_instant_utc)
      then show ?thesis using True ok all
        by (auto simp: async_add_external_statistics_def sp check_samples_ok)
    next
      case some: False
      from check_samples_bad[OF some, of tz] show ?thesis using True ok some
        by (auto simp: async_add_external_statistics_def sp)
    qed
  qed
qed

lemma valid_statistic_id_examples:
  "valid_statistic_id ''ext:gas''" "valid_statistic_id ''a1:b_2''"
  "\<not> valid_statistic_id ''ext:gas__total''" "\<not> valid_statistic_id ''_ext:gas''"
  "\<not> valid_statistic_id ''ext:gas_''" "\<not> valid_statistic_id ''ext.gas''"
  "\<not> valid_statistic_id ''Ext:gas''" "\<not> valid_statistic_id ''ext:''"
  "\<not> valid_statistic_id ''ext:a:b''" "\<not> valid_statistic_id []"
  by code_simp+

theorem async_add_external_statistics_utc_witness:
  "valid_statistic_id (statistic_id ex_external_meta) \<and> source ex_external_meta \<noteq> []
   \<and> source ex_external_meta = takeWhile (\<lambda>c. c \<noteq> CHR '':'') (statistic_id ex_external_meta)
   \<and> list_all sample_ok [ex_external_sample \<lparr>wall = 10800000000, tzoff = Some 7200000000\<rparr>]
   \<and> async_add_external_statistics (\<lambda>w. 0) [] ex_external_meta
        [ex_external_sample \<lparr>wall = 10800000000, tzoff = Some 7200000000\<rparr>]
      = ([(ex_external_meta, [ex_external_sample \<lparr>wall = 3600000000, tzoff = Some 0\<rparr>])], None)
   \<and> (\<exists>mid. has_row mid 3600000000
         (fst (add_external_statistics 0 ex_db ex_external_meta
                 [ex_external_sample \<lparr>wall = 3600000000, tzoff = Some 0\<rparr>])))
   \<and> async_add_external_statistics (\<lambda>w. 0) [] ex_external_meta
        [ex_external_sample \<lparr>wall = 10800000000, tzoff = None\<rparr>]
      = ([], Some (HomeAssistantError ''Naive timestamp''))
   \<and> async_add_external_statistics (\<lambda>w. 0) [] ex_external_meta
        [ex_external_sample \<lparr>wall = 10800000001, tzoff = Some 0\<rparr>]
      = ([], Some (HomeAssistantError ''Invalid timestamp''))"
proof -
  let ?s = "ex_external_sample \<lparr>wall = 10800000000, tzoff = Some 7200000000\<rparr>"
  have h1: "valid_statistic_id (statistic_id ex_external_meta)" by code_simp
  have h2: "source ex_external_meta \<noteq> []" by (simp add: ex_external_meta_def)
  have h3: "source ex_external_meta
              = takeWhile (\<lambda>c. c \<noteq> CHR '':'') (statistic_id ex_external_meta)"
    by (simp add: ex_external_meta_def)
  have h4: "list_all sample_ok [?s]"
    by (simp add: sample_ok_def ex_external_sample_def dt_minute_def dt_second_def
        dt_microsecond_def)
  have n: "map (\<lambda>st. st\<lparr>start := utc_datetime (db_instant (start st))\<rparr>) [?s]
             = [ex_external_sample \<lparr>wall = 3600000000, tzoff = Some 0\<rparr>]"
    by (simp add: ex_external_sample_def utc_datetime_def db_instant_def)
  have i: "db_instant (start ?s) = 3600000000"
    by (simp add: ex_external_sample_def db_instant_def)
  have e1: "async_add_external_statistics (\<lambda>w. 0) [] ex_external_meta
        [ex_external_sample \<lparr>wall = 10800000000, tzoff = None\<rparr>]
      = ([], Some (HomeAssistantError ''Naive timestamp''))"
    by code_simp
  have e2: "async_add_external_statistics (\<lambda>w. 0) [] ex_external_meta
        [ex_external_sample \<lparr>wall = 10800000001, tzoff = Some 0\<rparr>]
      = ([], Some (HomeAssistantError ''Invalid timestamp''))"
    by code_simp
  from async_add_external_statistics_utc[of ex_external_meta "[?s]" "\<lambda>w. 0" "[]" 0 ex_db]
  show ?thesis using h1 h2 h3 h4 e1 e2 unfolding n by (simp add: i)
qed


text \<open>The alignment check reads the fields of the caller's time zone: 10:00 at the offset
  +05:30 passes, and its instant is 04:30 UTC.\<close>

lemma half_hour_offset_accepted:
  "sample_ok (ex_external_sample \<lparr>wall = 36000000000, tzoff = Some 19800000000\<rparr>)
   \<and> db_instant (start (ex_external_sample \<lparr>wall = 36000000000, tzoff = Some 19800000000\<rparr>))
       = 4 * 3600000000 + 1800000000"
  by (simp add: sample_ok_def ex_external_sample_def dt_minute_def dt_second_def
      dt_microsecond_def db_instant_def)

end
